theory Spec2Isabelle
  imports Main "HOL-Library.AList" "HOL-Library.Sublist"
begin

section \<open>Data model of \<open>imp.py\<close>\<close>

text \<open>
  A Python \<open>dict\<close> keeps its keys in insertion order and \<open>d[k] = v\<close> replaces the value
  of an existing key in place or appends a new key at the end. It is modelled as an
  association list written to with \<^const>\<open>AList.update\<close>, which does exactly that, and read
  with \<^const>\<open>map_of\<close>. Python strings are modelled as \<^typ>\<open>string\<close>; a character stands for
  the code point of the same number (0 to 255).
\<close>

type_synonym ('k, 'v) dict = "('k \<times> 'v) list"

text \<open>
  The value stored per VPC id in \<open>existing_configs\<close> (lines 138 to 143): a dict with the
  four keys \<open>cidr_block\<close>, \<open>enable_dns_support\<close>, \<open>enable_dns_hostnames\<close> and \<open>tags\<close>.
\<close>

record vpc_config =
  cidr_block :: string
  enable_dns_support :: bool
  enable_dns_hostnames :: bool
  tags :: "(string, string) dict"

text \<open>
  The value stored per VPC id in \<open>vpc_details\<close> (line 25): the tuple
  \<open>(cidr_block, tags, enable_dns_support, enable_dns_hostnames)\<close>.
\<close>

type_synonym vpc_detail = "string \<times> (string, string) dict \<times> bool \<times> bool"

type_synonym vpc_details = "(string, vpc_detail) dict"

text \<open>
  One element of \<open>response['Vpcs']\<close> as line 14 to 16 read it: \<open>VpcId\<close> and \<open>CidrBlock\<close>
  are indexed, \<open>Tags\<close> is read with \<open>get\<close> and may be absent; each tag is a \<open>Key\<close> and a
  \<open>Value\<close>.
\<close>

record vpc =
  VpcId :: string
  CidrBlock :: string
  Tags :: "(string \<times> string) list option"

text \<open>
  What \<open>hcl2.loads\<close> gives back, at the shape the code relies on: a dict of which line 40
  reads the keys \<open>imported_vpc_configs\<close> and \<open>existing_vpc_ids\<close> with \<open>get\<close>, each of them
  possibly absent. The key \<open>aws_region\<close>, which the written file also has, is never read.
  The parser is not part of the script: it is a parameter (\<open>hcl2_loads\<close> below). Lines 39
  and 40 return what the parser gave without looking at it; this type holds the results
  whose blocks have the shape the script writes, with either block possibly missing. A
  block of another shape (a string where the mapping is expected, say), on which the later
  merge would raise, cannot be written in this type, and no property below speaks of such
  a file.
\<close>

record parsed =
  aws_region :: "string option"
  existing_vpc_ids :: "string list option"
  imported_vpc_configs :: "(string, vpc_config) dict option"

text \<open>
  Exceptions. \<open>Exception\<close> carries the message of line 29; \<open>CalledProcessError\<close> is what
  \<open>subprocess.run(..., check=True)\<close> raises on a non-zero return code (the command and the
  code); \<open>ExternalError\<close> is anything raised by a library call (boto3, hcl2, the operating
  system).
\<close>

datatype exn =
  Exception string
| CalledProcessError "string list" int
| ExternalError string

record completed =
  returncode :: int
  stdout :: string
  stderr :: string

text \<open>
  The collaborators the script calls but does not define. Each is a function of its
  arguments: within one run every call is issued once when the ids are distinct.
  \<open>describe_vpcs\<close> stands for \<open>boto3.client('ec2', region_name=region).describe_vpcs\<close>,
  \<open>describe_vpc_attribute\<close> returns the \<open>Value\<close> of the attribute asked for,
  \<open>subprocess_run\<close> is \<open>subprocess.run\<close> without \<open>check\<close>, and \<open>set_iter\<close> is the order in
  which the interpreter iterates over a set of strings (line 29 joins a set).
\<close>

record env =
  describe_vpcs :: "string list \<Rightarrow> string \<Rightarrow> exn + vpc list"
  describe_vpc_attribute :: "string \<Rightarrow> string \<Rightarrow> exn + bool"
  hcl2_loads :: "string \<Rightarrow> exn + parsed"
  subprocess_run :: "string list \<Rightarrow> exn + completed"
  set_iter :: "string set \<Rightarrow> string list"

text \<open>
  What a run does to the outside, in the order it happens: lines printed, provider and
  subprocess calls, directories made, files written, the change of directory. The two
  prints that format an exception keep the exception instead of its text. The machine is
  the files (path to content) and the events so far; making a directory, opening an
  existing file and writing a file are taken to succeed, and what the provisioning tool
  does to its own files is not recorded.
\<close>

datatype event =
  Print string
| PrintWarning exn
| PrintError exn
| DescribeVpcs "string list" string
| DescribeVpcAttribute string string
| MakeDirs string
| WriteFile string string
| Chdir string
| Run "string list"

record state =
  files :: "string \<rightharpoonup> string"
  trace :: "event list"

definition emit :: "event \<Rightarrow> state \<Rightarrow> state" where
  "emit e s = s\<lparr>trace := trace s @ [e]\<rparr>"

definition write_file :: "string \<Rightarrow> string \<Rightarrow> state \<Rightarrow> state" where
  "write_file path content s =
     s\<lparr>files := (files s)(path \<mapsto> content), trace := trace s @ [WriteFile path content]\<rparr>"

section \<open>String helpers\<close>

text \<open>\<open>sep.join(xs)\<close> of Python.\<close>

fun join :: "string \<Rightarrow> string list \<Rightarrow> string" where
  "join sep [] = []"
| "join sep [x] = x"
| "join sep (x # y # ys) = x @ sep @ join sep (y # ys)"

text \<open>\<open>os.path.join(a, b)\<close> of \<open>posixpath\<close> for a relative second component.\<close>

definition path_join :: "string \<Rightarrow> string \<Rightarrow> string" where
  "path_join a b = (if a = [] \<or> last a = CHR ''/'' then a @ b else a @ ''/'' @ b)"

text \<open>\<open>str(b).lower()\<close> for a Boolean (lines 158 and 159).\<close>

definition str_lower_bool :: "bool \<Rightarrow> string" where
  "str_lower_bool b = (if b then ''true'' else ''false'')"

definition hex_digit :: "nat \<Rightarrow> char" where
  "hex_digit n = (''0123456789abcdef'') ! (n mod 16)"

text \<open>
  \<open>json.dumps\<close> on a list of strings with the default \<open>ensure_ascii=True\<close>: the named
  escapes, every other character outside the printable ASCII range as \<open>\u00xx\<close>.
\<close>

definition json_escape_char :: "char \<Rightarrow> string" where
  "json_escape_char c =
     (if c = CHR 0x22 then [CHR 0x5C, CHR 0x22]
      else if c = CHR 0x5C then [CHR 0x5C, CHR 0x5C]
      else if c = CHR 0x0A then [CHR 0x5C, CHR ''n'']
      else if c = CHR 0x0D then [CHR 0x5C, CHR ''r'']
      else if c = CHR 0x09 then [CHR 0x5C, CHR ''t'']
      else if c = CHR 0x08 then [CHR 0x5C, CHR ''b'']
      else if c = CHR 0x0C then [CHR 0x5C, CHR ''f'']
      else if 32 \<le> (of_char c :: nat) \<and> (of_char c :: nat) \<le> 126 then [c]
      else [CHR 0x5C, CHR ''u'', CHR ''0'', CHR ''0'',
            hex_digit (of_char c div 16), hex_digit (of_char c)])"

definition json_dumps_str :: "string \<Rightarrow> string" where
  "json_dumps_str s = [CHR 0x22] @ concat (map json_escape_char s) @ [CHR 0x22]"

definition json_dumps :: "string list \<Rightarrow> string" where
  "json_dumps xs = ''['' @ join '', '' (map json_dumps_str xs) @ '']''"

section \<open>\<open>read_existing_tfvars\<close> (lines 33 to 43)\<close>

text \<open>
  The file is read and parsed only when it exists; any exception inside the \<open>try\<close> is
  caught, a warning is printed and the function falls through to \<open>return {}, []\<close>.
\<close>

definition read_existing_tfvars ::
  "env \<Rightarrow> string \<Rightarrow> state \<Rightarrow> ((string, vpc_config) dict \<times> string list) \<times> state" where
  "read_existing_tfvars ev tfvars_path s =
     (case files s tfvars_path of
        Some content \<Rightarrow>
          (case hcl2_loads ev content of
             Inr p \<Rightarrow>
               ((case imported_vpc_configs p of None \<Rightarrow> [] | Some c \<Rightarrow> c,
                 case existing_vpc_ids p of None \<Rightarrow> [] | Some i \<Rightarrow> i), s)
           | Inl e \<Rightarrow> (([], []), emit (PrintWarning e) s))
      | None \<Rightarrow> (([], []), s))"

section \<open>\<open>create_or_update_tfvars\<close> (lines 129 to 179)\<close>

text \<open>
  The loop of lines 137 to 145 over \<open>vpc_details.items()\<close>: the entry of the id is
  overwritten or inserted, and the id is appended to the list unless it is there.
\<close>

fun update_configs ::
  "vpc_details \<Rightarrow> (string, vpc_config) dict \<times> string list
     \<Rightarrow> (string, vpc_config) dict \<times> string list" where
  "update_configs [] (existing_configs, ids) = (existing_configs, ids)"
| "update_configs ((vpc_id, (cidr, tgs, dns_support, dns_hostnames)) # rest)
       (existing_configs, ids) =
     update_configs rest
       (AList.update vpc_id
          \<lparr>cidr_block = cidr, enable_dns_support = dns_support,
           enable_dns_hostnames = dns_hostnames, tags = tgs\<rparr> existing_configs,
        if vpc_id \<notin> set ids then ids @ [vpc_id] else ids)"

text \<open>Line 153: one line per tag, in the order of the record's \<open>tags\<close> dict.\<close>

definition tag_line :: "string \<times> string \<Rightarrow> string" where
  "tag_line kv = ''      '' @ fst kv @ '' = \"'' @ snd kv @ ''\"''"

text \<open>Lines 151 to 163: the block of one entry of \<open>existing_configs\<close>.\<close>

definition vpc_config_text :: "string \<times> vpc_config \<Rightarrow> string" where
  "vpc_config_text item =
     ''  \"'' @ fst item @ ''\" = {\<newline>'' @
     ''    cidr_block           = \"'' @ cidr_block (snd item) @ ''\"\<newline>'' @
     ''    enable_dns_support   = '' @ str_lower_bool (enable_dns_support (snd item)) @ ''\<newline>'' @
     ''    enable_dns_hostnames = '' @ str_lower_bool (enable_dns_hostnames (snd item)) @ ''\<newline>'' @
     ''    tags = {\<newline>'' @
     join ''\<newline>'' (map tag_line (tags (snd item))) @ ''\<newline>'' @
     ''    }\<newline>'' @
     ''  }''"

text \<open>
  Lines 148 to 176: the text of the file. The blocks come from iterating
  \<open>existing_configs.items()\<close> (line 149), the list literal from \<open>existing_vpc_ids\<close>.
\<close>

definition tfvars_content ::
  "(string, vpc_config) dict \<Rightarrow> string list \<Rightarrow> string \<Rightarrow> string" where
  "tfvars_content existing_configs ids region =
     ''aws_region = \"'' @ region @ ''\"\<newline>'' @
     ''\<newline>'' @
     ''existing_vpc_ids = '' @ json_dumps ids @ ''\<newline>'' @
     ''\<newline>'' @
     ''imported_vpc_configs = {\<newline>'' @
     join ''\<newline>'' (map vpc_config_text existing_configs) @ ''\<newline>'' @
     ''}''"

definition create_or_update_tfvars ::
  "env \<Rightarrow> string \<Rightarrow> vpc_details \<Rightarrow> string \<Rightarrow> state \<Rightarrow> state" where
  "create_or_update_tfvars ev child_module details region s =
     (let tfvars_path = path_join child_module ''terraform.tfvars'';
          (loaded, s1) = read_existing_tfvars ev tfvars_path s;
          (existing_configs, ids) = update_configs details loaded
      in write_file tfvars_path (tfvars_content existing_configs ids region) s1)"

section \<open>\<open>fetch_vpc_details\<close> (lines 7 to 31)\<close>

text \<open>
  The loop of lines 13 to 25 over \<open>response['Vpcs']\<close>. The tags are collected by a dict
  comprehension (a later duplicate key overwrites), then the two attributes are looked up,
  each lookup possibly raising; the entry of the id is stored in \<open>vpc_details\<close>.
\<close>

fun fetch_each ::
  "env \<Rightarrow> vpc list \<Rightarrow> vpc_details \<Rightarrow> event list \<Rightarrow> (exn + vpc_details) \<times> event list" where
  "fetch_each ev [] details tr = (Inr details, tr)"
| "fetch_each ev (v # vs) details tr =
     (let vpc_id = VpcId v;
          cidr = CidrBlock v;
          tgs = fold (\<lambda>tag. AList.update (fst tag) (snd tag))
                  (case Tags v of None \<Rightarrow> [] | Some ts \<Rightarrow> ts) [];
          tr1 = tr @ [DescribeVpcAttribute vpc_id ''enableDnsSupport'']
      in case describe_vpc_attribute ev vpc_id ''enableDnsSupport'' of
           Inl e \<Rightarrow> (Inl e, tr1)
         | Inr dns_support \<Rightarrow>
             (let tr2 = tr1 @ [DescribeVpcAttribute vpc_id ''enableDnsHostnames'']
              in case describe_vpc_attribute ev vpc_id ''enableDnsHostnames'' of
                   Inl e \<Rightarrow> (Inl e, tr2)
                 | Inr dns_hostnames \<Rightarrow>
                     fetch_each ev vs
                       (AList.update vpc_id (cidr, tgs, dns_support, dns_hostnames) details)
                       tr2))"

text \<open>
  The batched query of line 11, the loop, then the check of lines 27 to 29 on what the
  loop collected. The events are the provider calls made, in order.
\<close>

definition fetch_vpc_details ::
  "env \<Rightarrow> string list \<Rightarrow> string \<Rightarrow> event list \<Rightarrow> (exn + vpc_details) \<times> event list" where
  "fetch_vpc_details ev vpc_ids region tr =
     (let tr1 = tr @ [DescribeVpcs vpc_ids region]
      in case describe_vpcs ev vpc_ids region of
           Inl e \<Rightarrow> (Inl e, tr1)
         | Inr vpcs \<Rightarrow>
             (case fetch_each ev vpcs [] tr1 of
                (Inl e, tr2) \<Rightarrow> (Inl e, tr2)
              | (Inr details, tr2) \<Rightarrow>
                  (let missing_vpcs = set vpc_ids - set (map fst details)
                   in if missing_vpcs \<noteq> {}
                      then (Inl (Exception (''VPCs not found: '' @
                                   join '', '' (set_iter ev missing_vpcs))), tr2)
                      else (Inr details, tr2))))"

section \<open>The scaffold (lines 45 to 127)\<close>

definition create_directory_structure :: "string \<Rightarrow> state \<Rightarrow> (string \<times> string) \<times> state" where
  "create_directory_structure base_path s =
     (let parent_module = path_join base_path ''Parent_Module'';
          child_module = path_join base_path ''Child_Module''
      in ((parent_module, child_module), emit (MakeDirs child_module) (emit (MakeDirs parent_module) s)))"

definition parent_main_tf :: string where
  "parent_main_tf =
     ''resource \"aws_vpc\" \"my_existing_vpc\" {\<newline>'' @
     ''    for_each = var.imported_vpc_configs\<newline>'' @
     ''    \<newline>'' @
     ''    cidr_block           = each.value.cidr_block\<newline>'' @
     ''    enable_dns_support   = each.value.enable_dns_support\<newline>'' @
     ''    enable_dns_hostnames = each.value.enable_dns_hostnames\<newline>'' @
     ''    tags                 = each.value.tags\<newline>'' @
     ''}''"

definition parent_variables_tf :: string where
  "parent_variables_tf =
     ''variable \"imported_vpc_configs\" {\<newline>'' @
     ''    description = \"Imported VPC configurations\"\<newline>'' @
     ''    type = map(object({\<newline>'' @
     ''        cidr_block           = string\<newline>'' @
     ''        enable_dns_support   = bool\<newline>'' @
     ''        enable_dns_hostnames = bool\<newline>'' @
     ''        tags                 = map(string)\<newline>'' @
     ''    }))\<newline>'' @
     ''    default = {}\<newline>'' @
     ''}\<newline>'' @
     ''\<newline>'' @
     ''variable \"aws_region\" {\<newline>'' @
     ''    description = \"AWS region\"\<newline>'' @
     ''    type        = string\<newline>'' @
     ''}''"

definition child_main_tf :: string where
  "child_main_tf =
     ''module \"imported_vpc\" {\<newline>'' @
     ''    source = \"../Parent_Module\"\<newline>'' @
     ''\<newline>'' @
     ''    imported_vpc_configs = var.imported_vpc_configs\<newline>'' @
     ''    aws_region          = var.aws_region\<newline>'' @
     ''}''"

definition child_variables_tf :: string where
  "child_variables_tf =
     parent_variables_tf @ ''\<newline>'' @
     ''\<newline>'' @
     ''variable \"existing_vpc_ids\" {\<newline>'' @
     ''    description = \"List of existing VPC IDs to import\"\<newline>'' @
     ''    type        = list(string)\<newline>'' @
     ''    default     = []\<newline>'' @
     ''}''"

definition backend_tf :: string where
  "backend_tf =
     ''terraform {\<newline>'' @
     ''    backend \"local\" {}\<newline>'' @
     ''}''"

text \<open>Lines 82 to 85 and 122 to 127: five files, each opened with \<open>"w"\<close> and written.\<close>

definition create_terraform_files :: "string \<Rightarrow> string \<Rightarrow> state \<Rightarrow> state" where
  "create_terraform_files parent_module child_module s =
     write_file (path_join child_module ''backend.tf'') backend_tf
       (write_file (path_join child_module ''variables.tf'') child_variables_tf
          (write_file (path_join child_module ''main.tf'') child_main_tf
             (write_file (path_join parent_module ''variables.tf'') parent_variables_tf
                (write_file (path_join parent_module ''main.tf'') parent_main_tf s))))"

section \<open>\<open>main\<close> (lines 181 to 245)\<close>

text \<open>
  \<open>subprocess.run(cmd, check=True)\<close>: the call itself may raise; a non-zero return code
  raises \<open>CalledProcessError\<close>.
\<close>

definition run_checked :: "env \<Rightarrow> string list \<Rightarrow> state \<Rightarrow> (exn + unit) \<times> state" where
  "run_checked ev cmd s =
     (let s1 = emit (Run cmd) s
      in case subprocess_run ev cmd of
           Inl e \<Rightarrow> (Inl e, s1)
         | Inr result \<Rightarrow>
             if returncode result \<noteq> 0
             then (Inl (CalledProcessError cmd (returncode result)), s1)
             else (Inr (), s1))"

definition import_cmd :: "string \<Rightarrow> string list" where
  "import_cmd vpc_id =
     [''terraform'', ''import'',
      ''module.imported_vpc.aws_vpc.my_existing_vpc[\"'' @ vpc_id @ ''\"]'', vpc_id]"

text \<open>
  The loop of lines 220 to 232. The call has no \<open>check\<close>: a return code other than zero
  prints the captured output and error and the loop goes on; only an exception of the call
  itself leaves the loop.
\<close>

fun import_vpcs :: "env \<Rightarrow> string list \<Rightarrow> state \<Rightarrow> (exn + unit) \<times> state" where
  "import_vpcs ev [] s = (Inr (), s)"
| "import_vpcs ev (vpc_id # rest) s =
     (let s1 = emit (Run (import_cmd vpc_id))
                 (emit (Print (''Importing VPC '' @ vpc_id @ ''...'')) s)
      in case subprocess_run ev (import_cmd vpc_id) of
           Inl e \<Rightarrow> (Inl e, s1)
         | Inr result \<Rightarrow>
             if returncode result \<noteq> 0
             then import_vpcs ev rest
                    (emit (Print (''Import Error for '' @ vpc_id @ '': '' @ stderr result))
                       (emit (Print (''Import Output for '' @ vpc_id @ '': '' @ stdout result)) s1))
             else import_vpcs ev rest
                    (emit (Print (''Import successful for '' @ vpc_id @ ''!'')) s1))"

text \<open>Lines 234 to 241, after the imports.\<close>

definition plan_and_apply :: "env \<Rightarrow> state \<Rightarrow> (exn + unit) \<times> state" where
  "plan_and_apply ev s =
     (case run_checked ev [''terraform'', ''plan''] (emit (Print ''Planning changes...'') s) of
        (Inl e, s1) \<Rightarrow> (Inl e, s1)
      | (Inr u, s1) \<Rightarrow>
          (case run_checked ev [''terraform'', ''apply'', ''-auto-approve'']
                  (emit (Print ''Applying changes...'') s1) of
             (Inl e, s2) \<Rightarrow> (Inl e, s2)
           | (Inr u, s2) \<Rightarrow> (Inr (), emit (Print ''VPC imports completed successfully!'') s2)))"

text \<open>Lines 212 to 241: the change of directory, the initialisation, the imports, the rest.\<close>

definition provision :: "env \<Rightarrow> string \<Rightarrow> string list \<Rightarrow> state \<Rightarrow> (exn + unit) \<times> state" where
  "provision ev child_module vpc_ids s =
     (case run_checked ev [''terraform'', ''init'']
             (emit (Print ''Initializing Terraform...'') (emit (Chdir child_module) s)) of
        (Inl e, s1) \<Rightarrow> (Inl e, s1)
      | (Inr u, s1) \<Rightarrow>
          (case import_vpcs ev vpc_ids s1 of
             (Inl e, s2) \<Rightarrow> (Inl e, s2)
           | (Inr u, s2) \<Rightarrow> plan_and_apply ev s2))"

text \<open>The body of the \<open>try\<close> (lines 201 to 241).\<close>

definition main_try ::
  "env \<Rightarrow> string \<Rightarrow> string \<Rightarrow> string list \<Rightarrow> state \<Rightarrow> (exn + unit) \<times> state" where
  "main_try ev child_module region vpc_ids s =
     (let s1 = emit (Print (''Fetching details for VPCs: '' @ join '', '' vpc_ids @ ''...'')) s
      in case fetch_vpc_details ev vpc_ids region (trace s1) of
           (Inl e, tr) \<Rightarrow> (Inl e, s1\<lparr>trace := tr\<rparr>)
         | (Inr details, tr) \<Rightarrow>
             (let s2 = create_or_update_tfvars ev child_module details region (s1\<lparr>trace := tr\<rparr>)
              in case files s2 (path_join child_module ''terraform.tfvars'') of
                   None \<Rightarrow> (Inl (ExternalError ''FileNotFoundError''), s2)
                 | Some content \<Rightarrow>
                     provision ev child_module vpc_ids
                       (emit (Print (''terraform.tfvars content:\<newline>'' @ content)) s2)))"

text \<open>
  \<open>main\<close> with the directory of the script, the region and the ids as parameters: the
  scaffold first (lines 187 and 190, outside the \<open>try\<close>), then the body of the \<open>try\<close>; an
  exception is printed and the process exits with 1 (lines 243 to 245), otherwise \<open>main\<close>
  returns and the process exits with 0.
\<close>

definition main_with :: "env \<Rightarrow> string \<Rightarrow> string \<Rightarrow> string list \<Rightarrow> state \<Rightarrow> int \<times> state" where
  "main_with ev base_path region vpc_ids s =
     (let ((parent_module, child_module), s1) = create_directory_structure base_path s;
          s2 = create_terraform_files parent_module child_module s1
      in case main_try ev child_module region vpc_ids s2 of
           (Inl e, s3) \<Rightarrow> (1, emit (PrintError e) s3)
         | (Inr u, s3) \<Rightarrow> (0, s3))"

text \<open>Lines 193 to 198: the region and the ids the script is configured with.\<close>

definition main :: "env \<Rightarrow> string \<Rightarrow> state \<Rightarrow> int \<times> state" where
  "main ev base_path s =
     main_with ev base_path ''us-east-1''
       [''vpc-0e4573ffe1ccab336'', ''vpc-07bd81c8b6c7c9b6d''] s"

section \<open>Notions used to state the properties\<close>

text \<open>
  The invariant of the variable store as the specification words it: every id of the
  sequence has an entry in the mapping, and every id of the mapping is in the sequence.
\<close>

definition lock_step :: "(string, vpc_config) dict \<times> string list \<Rightarrow> bool" where
  "lock_step store = (set (snd store) = fst ` set (fst store))"

text \<open>
  The rendering as the specification words it, for comparison with \<^const>\<open>tfvars_content\<close>:
  the region declaration, the id sequence as a list literal, then one block per id of the
  sequence, each holding the record the mapping has for that id (an id without a record
  has no block).
\<close>

definition serialize_spec ::
  "(string, vpc_config) dict \<Rightarrow> string list \<Rightarrow> string \<Rightarrow> string" where
  "serialize_spec mapping ids region =
     ''aws_region = \"'' @ region @ ''\"\<newline>'' @
     ''\<newline>'' @
     ''existing_vpc_ids = '' @ json_dumps ids @ ''\<newline>'' @
     ''\<newline>'' @
     ''imported_vpc_configs = {\<newline>'' @
     join ''\<newline>''
       (List.map_filter
          (\<lambda>i. case map_of mapping i of None \<Rightarrow> None | Some r \<Rightarrow> Some (vpc_config_text (i, r)))
          ids) @ ''\<newline>'' @
     ''}''"

text \<open>The subprocess commands of a trace, in order.\<close>

fun run_cmds :: "event list \<Rightarrow> string list list" where
  "run_cmds [] = []"
| "run_cmds (Run cmd # es) = cmd # run_cmds es"
| "run_cmds (e # es) = run_cmds es"

text \<open>The events of a trace that create or overwrite a file, in order.\<close>

fun writes :: "event list \<Rightarrow> (string \<times> string) list" where
  "writes [] = []"
| "writes (WriteFile path content # es) = (path, content) # writes es"
| "writes (e # es) = writes es"

text \<open>
  What one pass of the import loop prints and runs for an id whose call returned
  \<open>result\<close>.
\<close>

definition import_events :: "string \<Rightarrow> completed \<Rightarrow> event list" where
  "import_events vpc_id result =
     [Print (''Importing VPC '' @ vpc_id @ ''...''), Run (import_cmd vpc_id)] @
     (if returncode result \<noteq> 0
      then [Print (''Import Output for '' @ vpc_id @ '': '' @ stdout result),
            Print (''Import Error for '' @ vpc_id @ '': '' @ stderr result)]
      else [Print (''Import successful for '' @ vpc_id @ ''!'')])"

text \<open>Whether a checked subprocess call goes through: it returns, with return code 0.\<close>

definition succeeds :: "env \<Rightarrow> string list \<Rightarrow> bool" where
  "succeeds ev cmd =
     (case subprocess_run ev cmd of Inl e \<Rightarrow> False | Inr result \<Rightarrow> returncode result = 0)"

text \<open>
  The parser of \<open>ev\<close>, with the region it reports for a prior file replaced by \<open>prior\<close>.
\<close>

definition with_prior_region :: "string option \<Rightarrow> env \<Rightarrow> env" where
  "with_prior_region prior ev =
     ev\<lparr>hcl2_loads := (\<lambda>content. map_sum id (\<lambda>p. p\<lparr>aws_region := prior\<rparr>) (hcl2_loads ev content))\<rparr>"

text \<open>The two attribute lookups of lines 19 and 22 for one returned VPC.\<close>

definition attribute_calls :: "vpc \<Rightarrow> event list" where
  "attribute_calls v =
     [DescribeVpcAttribute (VpcId v) ''enableDnsSupport'',
      DescribeVpcAttribute (VpcId v) ''enableDnsHostnames'']"

text \<open>What the import loop prints and runs over a list of ids whose calls all return.\<close>

definition imports_trace :: "env \<Rightarrow> string list \<Rightarrow> event list" where
  "imports_trace ev vpc_ids =
     concat (map (\<lambda>vpc_id. case subprocess_run ev (import_cmd vpc_id) of
                    Inl e \<Rightarrow> [] | Inr result \<Rightarrow> import_events vpc_id result) vpc_ids)"

section \<open>Concrete collaborators and inputs\<close>

text \<open>
  A provider that resolves \<open>vpc-x\<close> and nothing else, whatever is asked; a parser that
  accepts one file, which holds the id list and no configuration block, and rejects
  every other text; a provisioning tool whose import of \<open>vpc-x\<close> exits with 1 and whose
  other commands exit with 0.
\<close>

definition ids_only_file :: string where
  "ids_only_file = ''existing_vpc_ids = [\"vpc-a\"]''"

definition env_partial :: env where
  "env_partial =
     \<lparr>describe_vpcs =
        (\<lambda>vpc_ids region. Inr [\<lparr>VpcId = ''vpc-x'', CidrBlock = ''10.0.0.0/16'', Tags = None\<rparr>]),
      describe_vpc_attribute = (\<lambda>vpc_id attribute. Inr True),
      hcl2_loads =
        (\<lambda>content. if content = ids_only_file
           then Inr \<lparr>aws_region = None, existing_vpc_ids = Some [''vpc-a''],
                     imported_vpc_configs = None\<rparr>
           else Inl (ExternalError ''parse error'')),
      subprocess_run =
        (\<lambda>cmd. if cmd = import_cmd ''vpc-x''
           then Inr \<lparr>returncode = 1, stdout = ''out'', stderr = ''err''\<rparr>
           else Inr \<lparr>returncode = 0, stdout = [], stderr = []\<rparr>),
      set_iter = (\<lambda>S. filter (\<lambda>x. x \<in> S) [''vpc-x'', ''vpc-y''])\<rparr>"

text \<open>The same, with a provider that resolves both \<open>vpc-x\<close> and \<open>vpc-y\<close>.\<close>

definition env_full :: env where
  "env_full =
     env_partial\<lparr>describe_vpcs :=
        (\<lambda>vpc_ids region.
           Inr [\<lparr>VpcId = ''vpc-x'', CidrBlock = ''10.0.0.0/16'', Tags = None\<rparr>,
                \<lparr>VpcId = ''vpc-y'', CidrBlock = ''10.1.0.0/16'',
                 Tags = Some [(''Name'', ''y'')]\<rparr>])\<rparr>"

text \<open>A machine with no file and nothing done yet.\<close>

definition fresh :: state where
  "fresh = \<lparr>files = Map.empty, trace = []\<rparr>"

text \<open>The path of the variable file when the script lives in \<open>/work\<close>.\<close>

definition tfvars_path0 :: string where
  "tfvars_path0 = ''/work/Child_Module/terraform.tfvars''"

text \<open>A machine whose variable file is not valid, and one whose file is the id list alone.\<close>

definition corrupted :: state where
  "corrupted = \<lparr>files = [tfvars_path0 \<mapsto> ''garbage''], trace = []\<rparr>"

definition ids_only :: state where
  "ids_only = \<lparr>files = [tfvars_path0 \<mapsto> ids_only_file], trace = []\<rparr>"

text \<open>
  Two discovery results for the same VPC that differ in its one tag: the key \<open>k\<close> with a
  value that holds a double quote, and a key that holds a double quote with the value \<open>b\<close>.
\<close>

definition details_quote_in_value :: vpc_details where
  "details_quote_in_value = [(''vpc-1'', (''10.0.0.0/16'', [(''k'', ''a = \"b'')], True, True))]"

definition details_quote_in_key :: vpc_details where
  "details_quote_in_key = [(''vpc-1'', (''10.0.0.0/16'', [(''k = \"a'', ''b'')], True, True))]"

text \<open>
  Two stores with the same two records: one whose id sequence follows the mapping, one
  whose id sequence is in the other order.
\<close>

definition store_ordered :: "(string, vpc_config) dict \<times> string list" where
  "store_ordered =
     ([(''vpc-a'', \<lparr>cidr_block = ''10.0.0.0/16'', enable_dns_support = True,
                     enable_dns_hostnames = False, tags = [(''Name'', ''a'')]\<rparr>),
       (''vpc-b'', \<lparr>cidr_block = ''10.1.0.0/16'', enable_dns_support = False,
                     enable_dns_hostnames = True, tags = []\<rparr>)],
      [''vpc-a'', ''vpc-b''])"

definition store_reordered :: "(string, vpc_config) dict \<times> string list" where
  "store_reordered =
     ([(''vpc-a'', \<lparr>cidr_block = ''10.0.0.0/16'', enable_dns_support = True,
                     enable_dns_hostnames = False, tags = [(''Name'', ''a'')]\<rparr>),
       (''vpc-b'', \<lparr>cidr_block = ''10.1.0.0/16'', enable_dns_support = False,
                     enable_dns_hostnames = True, tags = []\<rparr>)],
      [''vpc-b'', ''vpc-a''])"

section \<open>Merge: the loop of lines 137 to 145\<close>

lemma update_configs_ids:
  "\<exists>new. snd (update_configs details (cfgs, ids)) = ids @ new \<and> distinct new \<and>
         set new = fst ` set details - set ids"
proof (induction details arbitrary: cfgs ids)
  case Nil
  then show ?case by simp
next
  case (Cons d details)
  obtain vpc_id cidr tgs ds dh where d: "d = (vpc_id, (cidr, tgs, ds, dh))"
    by (cases d) auto
  let ?c = "AList.update vpc_id \<lparr>cidr_block = cidr, enable_dns_support = ds,
              enable_dns_hostnames = dh, tags = tgs\<rparr> cfgs"
  show ?case
  proof (cases "vpc_id \<in> set ids")
    case True
    with Cons.IH [of ?c ids] d show ?thesis by auto
  next
    case False
    from Cons.IH [of ?c "ids @ [vpc_id]"]
    obtain new where n: "snd (update_configs details (?c, ids @ [vpc_id])) = (ids @ [vpc_id]) @ new"
      "distinct new" "set new = fst ` set details - set (ids @ [vpc_id])" by blast
    have "snd (update_configs (d # details) (cfgs, ids)) = ids @ (vpc_id # new)"
      using n(1) False d by simp
    moreover have "distinct (vpc_id # new)" using n(2,3) by auto
    moreover have "set (vpc_id # new) = fst ` set (d # details) - set ids"
      using n(3) False d by auto
    ultimately show ?thesis by blast
  qed
qed

lemma update_configs_lookup:
  "map_of (fst (update_configs details (cfgs, ids))) k =
     (case map_of (rev details) k of
        None \<Rightarrow> map_of cfgs k
      | Some (cidr, tgs, ds, dh) \<Rightarrow>
          Some \<lparr>cidr_block = cidr, enable_dns_support = ds, enable_dns_hostnames = dh,
                tags = tgs\<rparr>)"
proof (induction details arbitrary: cfgs ids)
  case Nil
  then show ?case by simp
next
  case (Cons d details)
  obtain vpc_id cidr tgs ds dh where d: "d = (vpc_id, (cidr, tgs, ds, dh))"
    by (cases d) auto
  show ?case unfolding d
    by (simp add: Cons.IH update_conv' map_add_def split: option.splits)
qed

text \<open>
  C4. Last write wins: when the discovery result (a dict, so with distinct keys) holds a
  record for an id, the merged mapping holds for that id exactly the record built from the
  new CIDR block, the two new flags and the new tags, whatever the store held for the id
  before; nothing of the old record is kept.
\<close>

theorem merge_last_write_wins:
  assumes "distinct (map fst details)"
    and "(vpc_id, (cidr, tgs, ds, dh)) \<in> set details"
  shows "map_of (fst (update_configs details (cfgs, ids))) vpc_id =
           Some \<lparr>cidr_block = cidr, enable_dns_support = ds, enable_dns_hostnames = dh,
                 tags = tgs\<rparr>"
proof -
  from assms have "map_of (rev details) vpc_id = Some (cidr, tgs, ds, dh)"
    by (intro map_of_is_SomeI) (simp_all add: rev_map [symmetric])
  then show ?thesis by (simp add: update_configs_lookup)
qed

theorem merge_last_write_wins_witness:
  "distinct (map fst [(''vpc-a'', (''10.1.0.0/16'', [], False, False))]) \<and>
   (''vpc-a'', (''10.1.0.0/16'', [], False, False))
     \<in> set [(''vpc-a'', (''10.1.0.0/16'', [], False, False))] \<and>
   map_of [(''vpc-a'', \<lparr>cidr_block = ''10.0.0.0/16'', enable_dns_support = True,
                         enable_dns_hostnames = True, tags = [(''Name'', ''old'')]\<rparr>)] ''vpc-a''
     = Some \<lparr>cidr_block = ''10.0.0.0/16'', enable_dns_support = True,
             enable_dns_hostnames = True, tags = [(''Name'', ''old'')]\<rparr> \<and>
   map_of (fst (update_configs [(''vpc-a'', (''10.1.0.0/16'', [], False, False))]
                  ([(''vpc-a'', \<lparr>cidr_block = ''10.0.0.0/16'', enable_dns_support = True,
                                  enable_dns_hostnames = True, tags = [(''Name'', ''old'')]\<rparr>)],
                   [''vpc-a'']))) ''vpc-a''
     = Some \<lparr>cidr_block = ''10.1.0.0/16'', enable_dns_support = False,
             enable_dns_hostnames = False, tags = []\<rparr>"
  using merge_last_write_wins [of "[(''vpc-a'', (''10.1.0.0/16'', [], False, False))]"
      "''vpc-a''" "''10.1.0.0/16''" "[]" False False
      "[(''vpc-a'', \<lparr>cidr_block = ''10.0.0.0/16'', enable_dns_support = True,
                      enable_dns_hostnames = True, tags = [(''Name'', ''old'')]\<rparr>)]"
      "[''vpc-a'']"]
  by simp

text \<open>
  C5. Order preservation: the merged id sequence is the old sequence, unchanged and in its
  order, followed by the ids of the discovery result that were not in it, each once. So
  merging one id \<open>C\<close> into \<open>[A, B]\<close> gives \<open>[A, B, C]\<close> when \<open>C\<close> is new and \<open>[A, B]\<close> when
  it is not: an id already present is not appended again.
\<close>

theorem merge_preserves_order:
  "(\<exists>new. snd (update_configs details (cfgs, ids)) = ids @ new \<and> distinct new \<and>
          set new = fst ` set details - set ids) \<and>
   snd (update_configs [(C, r)] (cfgs, [A, B])) = (if C \<in> {A, B} then [A, B] else [A, B, C])"
proof
  show "\<exists>new. snd (update_configs details (cfgs, ids)) = ids @ new \<and> distinct new \<and>
          set new = fst ` set details - set ids"
    by (rule update_configs_ids)
next
  obtain cidr tgs ds dh where r: "r = (cidr, tgs, ds, dh)"
    by (cases r) auto
  show "snd (update_configs [(C, r)] (cfgs, [A, B])) = (if C \<in> {A, B} then [A, B] else [A, B, C])"
    unfolding r by simp
qed

section \<open>Loading the prior file\<close>




lemma update_configs_keys:
  "fst ` set (fst (update_configs details (cfgs, ids))) = fst ` set cfgs \<union> fst ` set details"
proof (induction details arbitrary: cfgs ids)
  case Nil
  then show ?case by simp
next
  case (Cons d details)
  obtain vpc_id cidr tgs ds dh where d: "d = (vpc_id, (cidr, tgs, ds, dh))"
    by (cases d) auto
  show ?case unfolding d by (simp add: Cons.IH dom_update)
qed

lemma update_configs_lock_step:
  assumes "lock_step store"
  shows "lock_step (update_configs details store)"
proof -
  obtain cfgs ids where s: "store = (cfgs, ids)" by (cases store)
  obtain new where n: "snd (update_configs details (cfgs, ids)) = ids @ new"
    "set new = fst ` set details - set ids"
    using update_configs_ids [of details cfgs ids] by blast
  show ?thesis
    using assms n update_configs_keys [of details cfgs ids]
    unfolding s lock_step_def by auto
qed

text \<open>
  C9, as the code has it. The store that \<open>read_existing_tfvars\<close> returns for an absent or
  unparseable file is in lock-step, and the merge loop keeps a store that is in lock-step in
  lock-step. A file that parses is not checked: the store read from it is in lock-step
  exactly when the ids of its list are the ids of its configuration block.
\<close>

theorem lock_step_kept:
  "(files s p = None \<or> (\<exists>content e. files s p = Some content \<and> hcl2_loads ev content = Inl e)
      \<longrightarrow> lock_step (fst (read_existing_tfvars ev p s))) \<and>
   (files s p = Some content \<and> hcl2_loads ev content = Inr pr \<longrightarrow>
      lock_step (fst (read_existing_tfvars ev p s)) =
        (set (case existing_vpc_ids pr of None \<Rightarrow> [] | Some i \<Rightarrow> i) =
         fst ` set (case imported_vpc_configs pr of None \<Rightarrow> [] | Some c \<Rightarrow> c))) \<and>
   (lock_step store \<longrightarrow> lock_step (update_configs details store))"
  by (auto simp: read_existing_tfvars_def lock_step_def [of "([], [])"] lock_step_def [of "(a, b)" for a b]
      update_configs_lock_step)

theorem lock_step_kept_witness:
  "files fresh tfvars_path0 = None \<and>
   lock_step (fst (read_existing_tfvars env_partial tfvars_path0 fresh)) \<and>
   files ids_only tfvars_path0 = Some ids_only_file \<and>
   hcl2_loads env_partial ids_only_file =
     Inr \<lparr>aws_region = None, existing_vpc_ids = Some [''vpc-a''], imported_vpc_configs = None\<rparr> \<and>
   \<not> lock_step (fst (read_existing_tfvars env_partial tfvars_path0 ids_only)) \<and>
   lock_step store_ordered \<and>
   lock_step (update_configs [(''vpc-c'', (''10.2.0.0/16'', [], True, True))] store_ordered)"
proof -
  let ?pr = "\<lparr>aws_region = None, existing_vpc_ids = Some [''vpc-a''], imported_vpc_configs = None\<rparr>"
  have 1: "files fresh tfvars_path0 = None" by (simp add: fresh_def)
  have 2: "files ids_only tfvars_path0 = Some ids_only_file" by (simp add: ids_only_def)
  have 3: "hcl2_loads env_partial ids_only_file = Inr ?pr" by (simp add: env_partial_def)
  have 4: "lock_step store_ordered" by (simp add: lock_step_def store_ordered_def)
  from lock_step_kept [where s = fresh and p = tfvars_path0 and ev = env_partial] 1
  have a: "lock_step (fst (read_existing_tfvars env_partial tfvars_path0 fresh))" by blast
  from lock_step_kept [where s = ids_only and p = tfvars_path0 and ev = env_partial
      and content = ids_only_file and pr = ?pr] 2 3
  have b: "\<not> lock_step (fst (read_existing_tfvars env_partial tfvars_path0 ids_only))" by simp
  from lock_step_kept [where store = store_ordered] 4
  have c: "lock_step (update_configs [(''vpc-c'', (''10.2.0.0/16'', [], True, True))] store_ordered)"
    by blast
  from 1 2 3 4 a b c show ?thesis by blast
qed

text \<open>
  A file that holds the id list \<open>["vpc-a"]\<close> and no configuration block is read as a store
  with one id and no record, and merging the record of \<open>vpc-x\<close> into it leaves \<open>vpc-a\<close>
  without a record.
\<close>

theorem lock_step_counterexample:
  "read_existing_tfvars env_partial tfvars_path0 ids_only = (([], [''vpc-a'']), ids_only) \<and>
   \<not> lock_step (fst (read_existing_tfvars env_partial tfvars_path0 ids_only)) \<and>
   update_configs [(''vpc-x'', (''10.0.0.0/16'', [], True, True))]
     (fst (read_existing_tfvars env_partial tfvars_path0 ids_only)) =
     ([(''vpc-x'', \<lparr>cidr_block = ''10.0.0.0/16'', enable_dns_support = True,
                     enable_dns_hostnames = True, tags = []\<rparr>)], [''vpc-a'', ''vpc-x'']) \<and>
   \<not> lock_step (update_configs [(''vpc-x'', (''10.0.0.0/16'', [], True, True))]
                 (fst (read_existing_tfvars env_partial tfvars_path0 ids_only)))"
  by (simp add: read_existing_tfvars_def env_partial_def ids_only_def lock_step_def)

section \<open>The text of the variable file\<close>

lemma read_existing_tfvars_prior:
  "read_existing_tfvars (with_prior_region prior ev) p s = read_existing_tfvars ev p s"
proof (cases "files s p")
  case None
  then show ?thesis by (simp add: read_existing_tfvars_def)
next
  case (Some content)
  then show ?thesis
    by (cases "hcl2_loads ev content")
       (simp_all add: read_existing_tfvars_def with_prior_region_def)
qed

text \<open>
  C10. The file written starts with the declaration of the region of the current run, and
  what follows the declaration is the same for every current region and for every region
  the prior file may have recorded: the region of the prior file is never used.
\<close>

theorem region_is_current:
  "\<exists>body. \<forall>region prior.
     files (create_or_update_tfvars (with_prior_region prior ev) child_module details region s)
       (path_join child_module ''terraform.tfvars'') =
     Some (''aws_region = \"'' @ region @ ''\"\<newline>'' @ body)"
proof -
  let ?p = "path_join child_module ''terraform.tfvars''"
  let ?m = "update_configs details (fst (read_existing_tfvars ev ?p s))"
  let ?body = "''\<newline>'' @ ''existing_vpc_ids = '' @ json_dumps (snd ?m) @ ''\<newline>'' @
     ''\<newline>'' @ ''imported_vpc_configs = {\<newline>'' @
     join ''\<newline>'' (map vpc_config_text (fst ?m)) @ ''\<newline>'' @ ''}''"
  have "files (create_or_update_tfvars (with_prior_region prior ev) child_module details region s) ?p =
     Some (''aws_region = \"'' @ region @ ''\"\<newline>'' @ ?body)" for region prior
    unfolding create_or_update_tfvars_def read_existing_tfvars_prior
    by (simp add: Let_def write_file_def tfvars_content_def split: prod.splits)
  then show ?thesis by blast
qed

text \<open>
  C1, at an input where the round trip cannot hold. With no prior file, the two discovery
  results above make \<open>create_or_update_tfvars\<close> write the same file, byte for byte, although
  the merged mappings differ at \<open>vpc-1\<close>; whatever the parser is, reading the file back
  gives one store for both, so at least one of the two mappings is not reproduced. Lines
  153 and 156 to 157 put keys and values between double quotes without escaping them: the
  line written for the tag is \<open>k = "a = "b"\<close>.
\<close>

theorem tfvars_collision:
  "create_or_update_tfvars ev child_module details_quote_in_value region fresh =
   create_or_update_tfvars ev child_module details_quote_in_key region fresh \<and>
   map_of (fst (update_configs details_quote_in_value ([], []))) ''vpc-1'' \<noteq>
   map_of (fst (update_configs details_quote_in_key ([], []))) ''vpc-1'' \<and>
   files (create_or_update_tfvars ev child_module details_quote_in_value ''us-east-1'' fresh)
     (path_join child_module ''terraform.tfvars'') =
   Some (''aws_region = \"us-east-1\"\<newline>\<newline>'' @
         ''existing_vpc_ids = [\"vpc-1\"]\<newline>\<newline>'' @
         ''imported_vpc_configs = {\<newline>'' @
         ''  \"vpc-1\" = {\<newline>'' @
         ''    cidr_block           = \"10.0.0.0/16\"\<newline>'' @
         ''    enable_dns_support   = true\<newline>'' @
         ''    enable_dns_hostnames = true\<newline>'' @
         ''    tags = {\<newline>'' @
         ''      k = \"a = \"b\"\<newline>'' @
         ''    }\<newline>'' @
         ''  }\<newline>'' @
         ''}'')"
  by (simp add: create_or_update_tfvars_def read_existing_tfvars_def fresh_def
      details_quote_in_value_def details_quote_in_key_def tfvars_content_def
      vpc_config_text_def tag_line_def write_file_def str_lower_bool_def Let_def
      json_dumps_def json_dumps_str_def json_escape_char_def)

lemma map_filter_lookup:
  assumes "\<And>k v. (k, v) \<in> set xs \<Longrightarrow> map_of cfgs k = Some v"
  shows "List.map_filter (\<lambda>i. case map_of cfgs i of None \<Rightarrow> None | Some r \<Rightarrow> Some (f (i, r)))
           (map fst xs) = map f xs"
  using assms
proof (induction xs)
  case Nil
  then show ?case by simp
next
  case (Cons x xs)
  obtain k v where x: "x = (k, v)" by (cases x)
  from Cons.prems [of k v] x have "map_of cfgs k = Some v" by simp
  moreover have "List.map_filter (\<lambda>i. case map_of cfgs i of None \<Rightarrow> None | Some r \<Rightarrow> Some (f (i, r)))
           (map fst xs) = map f xs"
    using Cons.prems by (intro Cons.IH) simp
  ultimately show ?case by (simp add: x)
qed

lemma same_order_serialize:
  assumes "map fst cfgs = ids" and "distinct ids"
  shows "tfvars_content cfgs ids region = serialize_spec cfgs ids region"
proof -
  have "List.map_filter (\<lambda>i. case map_of cfgs i of None \<Rightarrow> None
            | Some r \<Rightarrow> Some (vpc_config_text (i, r))) (map fst cfgs) = map vpc_config_text cfgs"
    using assms by (intro map_filter_lookup) simp
  then show ?thesis using assms(1) by (simp add: tfvars_content_def serialize_spec_def)
qed

lemma update_configs_same_order:
  assumes "map fst cfgs = ids" and "distinct ids"
  shows "map fst (fst (update_configs details (cfgs, ids))) = snd (update_configs details (cfgs, ids))
         \<and> distinct (snd (update_configs details (cfgs, ids)))"
  using assms
proof (induction details arbitrary: cfgs ids)
  case Nil
  then show ?case by simp
next
  case (Cons d details)
  obtain vpc_id cidr tgs ds dh where d: "d = (vpc_id, (cidr, tgs, ds, dh))"
    by (cases d) auto
  let ?c = "AList.update vpc_id \<lparr>cidr_block = cidr, enable_dns_support = ds,
              enable_dns_hostnames = dh, tags = tgs\<rparr> cfgs"
  let ?i = "if vpc_id \<notin> set ids then ids @ [vpc_id] else ids"
  have "map fst ?c = ?i" using Cons.prems(1) by (auto simp: update_keys)
  moreover have "distinct ?i" using Cons.prems(2) by simp
  ultimately show ?case unfolding d using Cons.IH [of ?c ?i] by simp
qed

text \<open>
  C8, as the code has it. The text is, in this order: the region declaration, the id
  sequence as a list literal, then one block per entry of the mapping, in the order of the
  mapping (line 149 iterates \<open>existing_configs.items()\<close>); a block holds the CIDR string,
  the two flags as \<open>true\<close> or \<open>false\<close>, and the tags in their stored order. When the keys of
  the mapping, in order, are the id sequence (and the ids are distinct), this stays so
  after a merge and the text is the one obtained by iterating the id sequence.
\<close>

theorem serialize_order:
  "tfvars_content cfgs ids region =
     ''aws_region = \"'' @ region @ ''\"\<newline>\<newline>'' @
     ''existing_vpc_ids = '' @ json_dumps ids @ ''\<newline>\<newline>'' @
     ''imported_vpc_configs = {\<newline>'' @
     join ''\<newline>''
       (map (\<lambda>(vid, config).
          ''  \"'' @ vid @ ''\" = {\<newline>'' @
          ''    cidr_block           = \"'' @ cidr_block config @ ''\"\<newline>'' @
          ''    enable_dns_support   = '' @
             (if enable_dns_support config then ''true'' else ''false'') @ ''\<newline>'' @
          ''    enable_dns_hostnames = '' @
             (if enable_dns_hostnames config then ''true'' else ''false'') @ ''\<newline>'' @
          ''    tags = {\<newline>'' @
          join ''\<newline>'' (map (\<lambda>(k, v). ''      '' @ k @ '' = \"'' @ v @ ''\"'') (tags config)) @
          ''\<newline>    }\<newline>  }'') cfgs) @
     ''\<newline>}'' \<and>
   (map fst cfgs = ids \<and> distinct ids \<longrightarrow>
      (let merged = update_configs details (cfgs, ids)
       in map fst (fst merged) = snd merged \<and> distinct (snd merged) \<and>
          tfvars_content (fst merged) (snd merged) region =
            serialize_spec (fst merged) (snd merged) region))"
proof
  have "vpc_config_text = (\<lambda>(vid, config).
          ''  \"'' @ vid @ ''\" = {\<newline>'' @
          ''    cidr_block           = \"'' @ cidr_block config @ ''\"\<newline>'' @
          ''    enable_dns_support   = '' @
             (if enable_dns_support config then ''true'' else ''false'') @ ''\<newline>'' @
          ''    enable_dns_hostnames = '' @
             (if enable_dns_hostnames config then ''true'' else ''false'') @ ''\<newline>'' @
          ''    tags = {\<newline>'' @
          join ''\<newline>'' (map (\<lambda>(k, v). ''      '' @ k @ '' = \"'' @ v @ ''\"'') (tags config)) @
          ''\<newline>    }\<newline>  }'')"
  proof -
    have "tag_line = (\<lambda>(k, v). ''      '' @ k @ '' = \"'' @ v @ ''\"'')"
      by (rule ext) (simp add: tag_line_def case_prod_beta)
    then show ?thesis
      by (intro ext) (simp add: vpc_config_text_def str_lower_bool_def case_prod_beta)
  qed
  then show "tfvars_content cfgs ids region =
     ''aws_region = \"'' @ region @ ''\"\<newline>\<newline>'' @
     ''existing_vpc_ids = '' @ json_dumps ids @ ''\<newline>\<newline>'' @
     ''imported_vpc_configs = {\<newline>'' @
     join ''\<newline>''
       (map (\<lambda>(vid, config).
          ''  \"'' @ vid @ ''\" = {\<newline>'' @
          ''    cidr_block           = \"'' @ cidr_block config @ ''\"\<newline>'' @
          ''    enable_dns_support   = '' @
             (if enable_dns_support config then ''true'' else ''false'') @ ''\<newline>'' @
          ''    enable_dns_hostnames = '' @
             (if enable_dns_hostnames config then ''true'' else ''false'') @ ''\<newline>'' @
          ''    tags = {\<newline>'' @
          join ''\<newline>'' (map (\<lambda>(k, v). ''      '' @ k @ '' = \"'' @ v @ ''\"'') (tags config)) @
          ''\<newline>    }\<newline>  }'') cfgs) @
     ''\<newline>}''"
    by (simp add: tfvars_content_def)
next
  show "map fst cfgs = ids \<and> distinct ids \<longrightarrow>
      (let merged = update_configs details (cfgs, ids)
       in map fst (fst merged) = snd merged \<and> distinct (snd merged) \<and>
          tfvars_content (fst merged) (snd merged) region =
            serialize_spec (fst merged) (snd merged) region)"
    using update_configs_same_order [of cfgs ids details]
    by (auto simp: Let_def intro: same_order_serialize)
qed

theorem serialize_order_witness:
  "map fst (fst store_ordered) = snd store_ordered \<and> distinct (snd store_ordered) \<and>
   update_configs [(''vpc-c'', (''10.2.0.0/16'', [], True, True))] store_ordered =
     (fst store_ordered @
        [(''vpc-c'', \<lparr>cidr_block = ''10.2.0.0/16'', enable_dns_support = True,
                       enable_dns_hostnames = True, tags = []\<rparr>)],
      [''vpc-a'', ''vpc-b'', ''vpc-c'']) \<and>
   tfvars_content
     (fst (update_configs [(''vpc-c'', (''10.2.0.0/16'', [], True, True))] store_ordered))
     (snd (update_configs [(''vpc-c'', (''10.2.0.0/16'', [], True, True))] store_ordered))
     ''us-east-1'' =
   serialize_spec
     (fst (update_configs [(''vpc-c'', (''10.2.0.0/16'', [], True, True))] store_ordered))
     (snd (update_configs [(''vpc-c'', (''10.2.0.0/16'', [], True, True))] store_ordered))
     ''us-east-1''"
proof -
  have h: "map fst (fst store_ordered) = snd store_ordered \<and> distinct (snd store_ordered)"
    by (simp add: store_ordered_def)
  have u: "update_configs [(''vpc-c'', (''10.2.0.0/16'', [], True, True))] store_ordered =
     (fst store_ordered @
        [(''vpc-c'', \<lparr>cidr_block = ''10.2.0.0/16'', enable_dns_support = True,
                       enable_dns_hostnames = True, tags = []\<rparr>)],
      [''vpc-a'', ''vpc-b'', ''vpc-c''])"
    by (simp add: store_ordered_def)
  from serialize_order [of "fst store_ordered" "snd store_ordered" "''us-east-1''"
      "[(''vpc-c'', (''10.2.0.0/16'', [], True, True))]"] h
  have "tfvars_content
     (fst (update_configs [(''vpc-c'', (''10.2.0.0/16'', [], True, True))] store_ordered))
     (snd (update_configs [(''vpc-c'', (''10.2.0.0/16'', [], True, True))] store_ordered))
     ''us-east-1'' =
   serialize_spec
     (fst (update_configs [(''vpc-c'', (''10.2.0.0/16'', [], True, True))] store_ordered))
     (snd (update_configs [(''vpc-c'', (''10.2.0.0/16'', [], True, True))] store_ordered))
     ''us-east-1''"
    by (simp add: Let_def)
  with h u show ?thesis by blast
qed

text \<open>
  A store whose id sequence is \<open>[vpc-b, vpc-a]\<close> and whose mapping holds \<open>vpc-a\<close> before
  \<open>vpc-b\<close>: the list literal follows the sequence, the blocks follow the mapping.
\<close>

theorem serialize_order_counterexample:
  "tfvars_content (fst store_reordered) (snd store_reordered) ''us-east-1'' =
     ''aws_region = \"us-east-1\"\<newline>\<newline>'' @
     ''existing_vpc_ids = [\"vpc-b\", \"vpc-a\"]\<newline>\<newline>'' @
     ''imported_vpc_configs = {\<newline>'' @
     ''  \"vpc-a\" = {\<newline>'' @
     ''    cidr_block           = \"10.0.0.0/16\"\<newline>'' @
     ''    enable_dns_support   = true\<newline>'' @
     ''    enable_dns_hostnames = false\<newline>'' @
     ''    tags = {\<newline>'' @
     ''      Name = \"a\"\<newline>'' @
     ''    }\<newline>'' @
     ''  }\<newline>'' @
     ''  \"vpc-b\" = {\<newline>'' @
     ''    cidr_block           = \"10.1.0.0/16\"\<newline>'' @
     ''    enable_dns_support   = false\<newline>'' @
     ''    enable_dns_hostnames = true\<newline>'' @
     ''    tags = {\<newline>'' @
     ''\<newline>'' @
     ''    }\<newline>'' @
     ''  }\<newline>'' @
     ''}'' \<and>
   tfvars_content (fst store_reordered) (snd store_reordered) ''us-east-1'' \<noteq>
   serialize_spec (fst store_reordered) (snd store_reordered) ''us-east-1''"
  by (simp add: store_reordered_def tfvars_content_def serialize_spec_def vpc_config_text_def
      tag_line_def str_lower_bool_def json_dumps_def json_dumps_str_def json_escape_char_def)

section \<open>Discovery\<close>

lemma run_cmds_append: "run_cmds (xs @ ys) = run_cmds xs @ run_cmds ys"
  by (induction xs rule: run_cmds.induct) simp_all

lemma writes_append: "writes (xs @ ys) = writes xs @ writes ys"
  by (induction xs rule: writes.induct) simp_all

lemma fetch_each_trace:
  "fetch_each ev vpcs d tr =
     (fst (fetch_each ev vpcs d []), tr @ snd (fetch_each ev vpcs d []))"
proof (induction vpcs arbitrary: d tr)
  case Nil
  then show ?case by simp
next
  case (Cons v vs)
  let ?a = "DescribeVpcAttribute (VpcId v) ''enableDnsSupport''"
  let ?b = "DescribeVpcAttribute (VpcId v) ''enableDnsHostnames''"
  show ?case
  proof (cases "describe_vpc_attribute ev (VpcId v) ''enableDnsSupport''")
    case (Inl e)
    then show ?thesis by (simp add: Let_def)
  next
    case b1: (Inr b1)
    show ?thesis
    proof (cases "describe_vpc_attribute ev (VpcId v) ''enableDnsHostnames''")
      case (Inl e)
      with b1 show ?thesis by (simp add: Let_def)
    next
      case b2: (Inr b2)
      let ?d = "AList.update (VpcId v)
                  (CidrBlock v,
                   fold (\<lambda>tag. AList.update (fst tag) (snd tag))
                     (case Tags v of None \<Rightarrow> [] | Some ts \<Rightarrow> ts) [], b1, b2) d"
      have 1: "fetch_each ev (v # vs) d tr = fetch_each ev vs ?d (tr @ [?a, ?b])"
        using b1 b2 by (simp add: Let_def)
      have 2: "fetch_each ev (v # vs) d [] = fetch_each ev vs ?d [?a, ?b]"
        using b1 b2 by (simp add: Let_def)
      have 3: "fetch_each ev vs ?d (tr @ [?a, ?b]) =
                 (fst (fetch_each ev vs ?d []), (tr @ [?a, ?b]) @ snd (fetch_each ev vs ?d []))"
        by (rule Cons.IH)
      have 4: "fetch_each ev vs ?d [?a, ?b] =
                 (fst (fetch_each ev vs ?d []), [?a, ?b] @ snd (fetch_each ev vs ?d []))"
        by (rule Cons.IH)
      show ?thesis unfolding 1 2 3 4 by simp
    qed
  qed
qed

lemma fetch_each_quiet:
  "run_cmds (snd (fetch_each ev vpcs d tr)) = run_cmds tr \<and>
   writes (snd (fetch_each ev vpcs d tr)) = writes tr"
proof (induction vpcs arbitrary: d tr)
  case Nil
  then show ?case by simp
next
  case (Cons v vs)
  show ?case
    by (simp add: Let_def Cons.IH run_cmds_append writes_append split: sum.splits)
qed

lemma fetch_each_ok:
  assumes "\<forall>v\<in>set vpcs. (\<exists>b. describe_vpc_attribute ev (VpcId v) ''enableDnsSupport'' = Inr b) \<and>
                        (\<exists>b. describe_vpc_attribute ev (VpcId v) ''enableDnsHostnames'' = Inr b)"
  shows "\<exists>d'. fetch_each ev vpcs d tr = (Inr d', tr @ concat (map attribute_calls vpcs)) \<and>
              fst ` set d' = fst ` set d \<union> VpcId ` set vpcs"
  using assms
proof (induction vpcs arbitrary: d tr)
  case Nil
  then show ?case by simp
next
  case (Cons v vs)
  from Cons.prems obtain b1 b2 where
    b: "describe_vpc_attribute ev (VpcId v) ''enableDnsSupport'' = Inr b1"
       "describe_vpc_attribute ev (VpcId v) ''enableDnsHostnames'' = Inr b2"
    by auto
  let ?t = "fold (\<lambda>tag. AList.update (fst tag) (snd tag))
              (case Tags v of None \<Rightarrow> [] | Some ts \<Rightarrow> ts) []"
  let ?d = "AList.update (VpcId v) (CidrBlock v, ?t, b1, b2) d"
  let ?tr = "tr @ attribute_calls v"
  from Cons.prems have "\<forall>v\<in>set vs. (\<exists>b. describe_vpc_attribute ev (VpcId v) ''enableDnsSupport'' = Inr b) \<and>
                        (\<exists>b. describe_vpc_attribute ev (VpcId v) ''enableDnsHostnames'' = Inr b)"
    by simp
  from Cons.IH [OF this, of ?d ?tr]
  obtain d' where d': "fetch_each ev vs ?d ?tr = (Inr d', ?tr @ concat (map attribute_calls vs))"
    "fst ` set d' = fst ` set ?d \<union> VpcId ` set vs" by blast
  have "fetch_each ev (v # vs) d tr = fetch_each ev vs ?d ?tr"
    using b by (simp add: Let_def attribute_calls_def)
  with d' show ?case by (auto simp: dom_update)
qed

text \<open>
  C3. When the batched query returns, the attribute lookups for the returned VPCs return,
  and the ids returned are a strict subset of the ids requested, \<open>fetch_vpc_details\<close> raises
  the exception whose message is \<open>VPCs not found: \<close> followed by the missing ids, each
  once and no other id, joined by a comma and a space (in the order the interpreter iterates
  the set). The provider calls made before the exception are the query and the two lookups
  per returned VPC: the check comes after the query. With \<open>vpc-x\<close> and \<open>vpc-y\<close> requested
  and \<open>vpc-x\<close> alone resolved, the message names \<open>vpc-y\<close> alone.
\<close>

theorem missing_ids_named:
  assumes "describe_vpcs ev vpc_ids region = Inr vpcs"
    and "\<forall>v\<in>set vpcs. (\<exists>b. describe_vpc_attribute ev (VpcId v) ''enableDnsSupport'' = Inr b) \<and>
                       (\<exists>b. describe_vpc_attribute ev (VpcId v) ''enableDnsHostnames'' = Inr b)"
    and "VpcId ` set vpcs \<subset> set vpc_ids"
    and "set (set_iter ev (set vpc_ids - VpcId ` set vpcs)) = set vpc_ids - VpcId ` set vpcs"
    and "distinct (set_iter ev (set vpc_ids - VpcId ` set vpcs))"
  shows "\<exists>missing. set missing = set vpc_ids - VpcId ` set vpcs \<and> distinct missing \<and>
           fetch_vpc_details ev vpc_ids region tr =
             (Inl (Exception (''VPCs not found: '' @ join '', '' missing)),
              tr @ DescribeVpcs vpc_ids region # concat (map attribute_calls vpcs))"
proof -
  from fetch_each_ok [OF assms(2), of "[]" "tr @ [DescribeVpcs vpc_ids region]"]
  obtain d' where d': "fetch_each ev vpcs [] (tr @ [DescribeVpcs vpc_ids region]) =
      (Inr d', (tr @ [DescribeVpcs vpc_ids region]) @ concat (map attribute_calls vpcs))"
    "fst ` set d' = VpcId ` set vpcs" by auto
  from assms(3) have ne: "set vpc_ids - VpcId ` set vpcs \<noteq> {}" by blast
  have "fetch_vpc_details ev vpc_ids region tr =
      (Inl (Exception (''VPCs not found: '' @
              join '', '' (set_iter ev (set vpc_ids - VpcId ` set vpcs)))),
       tr @ DescribeVpcs vpc_ids region # concat (map attribute_calls vpcs))"
    using assms(1) d' ne by (simp add: fetch_vpc_details_def Let_def)
  with assms(4,5) show ?thesis by blast
qed

theorem missing_ids_named_witness:
  "describe_vpcs env_partial [''vpc-x'', ''vpc-y''] ''us-east-1'' =
     Inr [\<lparr>VpcId = ''vpc-x'', CidrBlock = ''10.0.0.0/16'', Tags = None\<rparr>] \<and>
   VpcId ` set [\<lparr>VpcId = ''vpc-x'', CidrBlock = ''10.0.0.0/16'', Tags = None\<rparr>]
     \<subset> set [''vpc-x'', ''vpc-y''] \<and>
   fetch_vpc_details env_partial [''vpc-x'', ''vpc-y''] ''us-east-1'' [] =
     (Inl (Exception ''VPCs not found: vpc-y''),
      [DescribeVpcs [''vpc-x'', ''vpc-y''] ''us-east-1'',
       DescribeVpcAttribute ''vpc-x'' ''enableDnsSupport'',
       DescribeVpcAttribute ''vpc-x'' ''enableDnsHostnames''])"
proof -
  let ?v = "\<lparr>VpcId = ''vpc-x'', CidrBlock = ''10.0.0.0/16'', Tags = None\<rparr>"
  have m: "set [''vpc-x'', ''vpc-y''] - VpcId ` set [?v] = {''vpc-y''}" by auto
  have 1: "describe_vpcs env_partial [''vpc-x'', ''vpc-y''] ''us-east-1'' = Inr [?v]"
    by (simp add: env_partial_def)
  have 2: "\<forall>v\<in>set [?v]. (\<exists>b. describe_vpc_attribute env_partial (VpcId v) ''enableDnsSupport'' = Inr b) \<and>
                       (\<exists>b. describe_vpc_attribute env_partial (VpcId v) ''enableDnsHostnames'' = Inr b)"
    by (auto simp: env_partial_def)
  have 3: "VpcId ` set [?v] \<subset> set [''vpc-x'', ''vpc-y'']" by auto
  have 4: "set (set_iter env_partial (set [''vpc-x'', ''vpc-y''] - VpcId ` set [?v])) =
           set [''vpc-x'', ''vpc-y''] - VpcId ` set [?v]"
    unfolding m by (simp add: env_partial_def)
  have 5: "distinct (set_iter env_partial (set [''vpc-x'', ''vpc-y''] - VpcId ` set [?v]))"
    unfolding m by (simp add: env_partial_def)
  from missing_ids_named [OF 1 2 3 4 5, of "[]"]
  obtain missing where ms: "set missing = {''vpc-y''}" "distinct missing"
    "fetch_vpc_details env_partial [''vpc-x'', ''vpc-y''] ''us-east-1'' [] =
       (Inl (Exception (''VPCs not found: '' @ join '', '' missing)),
        [] @ DescribeVpcs [''vpc-x'', ''vpc-y''] ''us-east-1'' # concat (map attribute_calls [?v]))"
    unfolding m by blast
  from ms(1,2) have "missing = [''vpc-y'']"
    by (cases missing) (auto simp: subset_singleton_iff split: if_splits)
  with ms(3) 1 3 show ?thesis by (simp add: attribute_calls_def)
qed

section \<open>The run\<close>

lemma fetch_vpc_details_trace:
  "fetch_vpc_details ev vpc_ids region tr =
     (fst (fetch_vpc_details ev vpc_ids region []), tr @ snd (fetch_vpc_details ev vpc_ids region []))"
proof (cases "describe_vpcs ev vpc_ids region")
  case (Inl e)
  then show ?thesis by (simp add: fetch_vpc_details_def Let_def)
next
  case (Inr vpcs)
  have 1: "fetch_each ev vpcs [] (tr @ [DescribeVpcs vpc_ids region]) =
             (fst (fetch_each ev vpcs [] []),
              (tr @ [DescribeVpcs vpc_ids region]) @ snd (fetch_each ev vpcs [] []))"
    by (rule fetch_each_trace)
  have 2: "fetch_each ev vpcs [] [DescribeVpcs vpc_ids region] =
             (fst (fetch_each ev vpcs [] []),
              [DescribeVpcs vpc_ids region] @ snd (fetch_each ev vpcs [] []))"
    by (rule fetch_each_trace)
  show ?thesis
    using Inr unfolding fetch_vpc_details_def Let_def
    by (cases "fst (fetch_each ev vpcs [] [])") (simp_all add: 1 2)
qed

lemma fetch_vpc_details_quiet:
  "run_cmds (snd (fetch_vpc_details ev vpc_ids region tr)) = run_cmds tr \<and>
   writes (snd (fetch_vpc_details ev vpc_ids region tr)) = writes tr"
proof (cases "describe_vpcs ev vpc_ids region")
  case (Inl e)
  then show ?thesis by (simp add: fetch_vpc_details_def Let_def run_cmds_append writes_append)
next
  case (Inr vpcs)
  obtain r t where f: "fetch_each ev vpcs [] (tr @ [DescribeVpcs vpc_ids region]) = (r, t)"
    by (cases "fetch_each ev vpcs [] (tr @ [DescribeVpcs vpc_ids region])")
  from fetch_each_quiet [of ev vpcs "[]" "tr @ [DescribeVpcs vpc_ids region]"] f
  have "run_cmds t = run_cmds tr \<and> writes t = writes tr"
    by (simp add: run_cmds_append writes_append)
  then show ?thesis
    using Inr f by (cases r) (simp_all add: fetch_vpc_details_def Let_def)
qed

lemma import_vpcs_ok:
  assumes "\<forall>vpc_id\<in>set vpc_ids. \<exists>result. subprocess_run ev (import_cmd vpc_id) = Inr result"
  shows "import_vpcs ev vpc_ids s = (Inr (), s\<lparr>trace := trace s @ imports_trace ev vpc_ids\<rparr>)"
  using assms
proof (induction vpc_ids arbitrary: s)
  case Nil
  then show ?case by (simp add: imports_trace_def)
next
  case (Cons vpc_id rest)
  from Cons.prems obtain result where r: "subprocess_run ev (import_cmd vpc_id) = Inr result"
    by auto
  from Cons.prems have "\<forall>vpc_id\<in>set rest. \<exists>result. subprocess_run ev (import_cmd vpc_id) = Inr result"
    by simp
  note IH = Cons.IH [OF this]
  show ?case
    by (simp add: r IH Let_def emit_def imports_trace_def import_events_def)
qed

lemma run_cmds_imports_trace:
  assumes "\<forall>vpc_id\<in>set vpc_ids. \<exists>result. subprocess_run ev (import_cmd vpc_id) = Inr result"
  shows "run_cmds (imports_trace ev vpc_ids) = map import_cmd vpc_ids"
  using assms
proof (induction vpc_ids)
  case Nil
  then show ?case by (simp add: imports_trace_def)
next
  case (Cons vpc_id rest)
  from Cons.prems obtain result where r: "subprocess_run ev (import_cmd vpc_id) = Inr result"
    by auto
  from Cons have "run_cmds (imports_trace ev rest) = map import_cmd rest" by simp
  then show ?case
    using r by (simp add: imports_trace_def import_events_def run_cmds_append)
qed

lemma plan_and_apply_result:
  "\<exists>res post. (\<forall>s. plan_and_apply ev s = (res, s\<lparr>trace := trace s @ post\<rparr>)) \<and>
     isl res = (\<not> (succeeds ev [''terraform'', ''plan''] \<and>
                    succeeds ev [''terraform'', ''apply'', ''-auto-approve''])) \<and>
     run_cmds post = [''terraform'', ''plan''] #
        (if succeeds ev [''terraform'', ''plan'']
         then [[''terraform'', ''apply'', ''-auto-approve'']] else []) \<and>
     writes post = []"
proof (cases "succeeds ev [''terraform'', ''plan'']")
  case False
  let ?post = "[Print ''Planning changes...'', Run [''terraform'', ''plan'']]"
  from False obtain e where
    "\<forall>s. run_checked ev [''terraform'', ''plan''] s = (Inl e, emit (Run [''terraform'', ''plan'']) s)"
    by (auto simp: succeeds_def run_checked_def Let_def split: sum.splits)
  then have "\<forall>s. plan_and_apply ev s = (Inl e, s\<lparr>trace := trace s @ ?post\<rparr>)"
    by (simp add: plan_and_apply_def emit_def)
  with False show ?thesis
    by (intro exI [of _ "Inl e"] exI [of _ ?post]) simp
next
  case True
  then have p: "\<forall>s. run_checked ev [''terraform'', ''plan''] s =
                  (Inr (), emit (Run [''terraform'', ''plan'']) s)"
    by (auto simp: succeeds_def run_checked_def Let_def split: sum.splits)
  show ?thesis
  proof (cases "succeeds ev [''terraform'', ''apply'', ''-auto-approve'']")
    case False
    let ?post = "[Print ''Planning changes...'', Run [''terraform'', ''plan''],
                  Print ''Applying changes...'', Run [''terraform'', ''apply'', ''-auto-approve'']]"
    from False obtain e where
      "\<forall>s. run_checked ev [''terraform'', ''apply'', ''-auto-approve''] s =
             (Inl e, emit (Run [''terraform'', ''apply'', ''-auto-approve'']) s)"
      by (auto simp: succeeds_def run_checked_def Let_def split: sum.splits)
    with p have "\<forall>s. plan_and_apply ev s = (Inl e, s\<lparr>trace := trace s @ ?post\<rparr>)"
      by (simp add: plan_and_apply_def emit_def)
    with True False show ?thesis
      by (intro exI [of _ "Inl e"] exI [of _ ?post]) simp
  next
    case a: True
    let ?post = "[Print ''Planning changes...'', Run [''terraform'', ''plan''],
                  Print ''Applying changes...'', Run [''terraform'', ''apply'', ''-auto-approve''],
                  Print ''VPC imports completed successfully!'']"
    from a have "\<forall>s. run_checked ev [''terraform'', ''apply'', ''-auto-approve''] s =
                  (Inr (), emit (Run [''terraform'', ''apply'', ''-auto-approve'']) s)"
      by (auto simp: succeeds_def run_checked_def Let_def split: sum.splits)
    with p have "\<forall>s. plan_and_apply ev s = (Inr (), s\<lparr>trace := trace s @ ?post\<rparr>)"
      by (simp add: plan_and_apply_def emit_def)
    with True a show ?thesis
      by (intro exI [of _ "Inr ()"] exI [of _ ?post]) simp
  qed
qed

lemma provision_result:
  assumes "succeeds ev [''terraform'', ''init'']"
    and "\<forall>vpc_id\<in>set vpc_ids. \<exists>result. subprocess_run ev (import_cmd vpc_id) = Inr result"
  shows "\<exists>res pre post. (\<forall>s. provision ev child_module vpc_ids s =
             (res, s\<lparr>trace := trace s @ pre @ imports_trace ev vpc_ids @ post\<rparr>)) \<and>
     isl res = (\<not> (succeeds ev [''terraform'', ''plan''] \<and>
                    succeeds ev [''terraform'', ''apply'', ''-auto-approve''])) \<and>
     run_cmds pre = [[''terraform'', ''init'']] \<and>
     run_cmds post = [''terraform'', ''plan''] #
        (if succeeds ev [''terraform'', ''plan'']
         then [[''terraform'', ''apply'', ''-auto-approve'']] else []) \<and>
     writes pre = [] \<and> writes post = []"
proof -
  let ?pre = "[Chdir child_module, Print ''Initializing Terraform...'', Run [''terraform'', ''init'']]"
  from plan_and_apply_result [of ev] obtain res post where
    pa: "\<forall>s. plan_and_apply ev s = (res, s\<lparr>trace := trace s @ post\<rparr>)"
    and r: "isl res = (\<not> (succeeds ev [''terraform'', ''plan''] \<and>
                    succeeds ev [''terraform'', ''apply'', ''-auto-approve'']))"
       "run_cmds post = [''terraform'', ''plan''] #
        (if succeeds ev [''terraform'', ''plan'']
         then [[''terraform'', ''apply'', ''-auto-approve'']] else [])"
       "writes post = []"
    by blast
  from assms(1) have i: "\<forall>s. run_checked ev [''terraform'', ''init''] s =
                  (Inr (), emit (Run [''terraform'', ''init'']) s)"
    by (auto simp: succeeds_def run_checked_def Let_def split: sum.splits)
  have "\<forall>s. provision ev child_module vpc_ids s =
             (res, s\<lparr>trace := trace s @ ?pre @ imports_trace ev vpc_ids @ post\<rparr>)"
    by (simp add: provision_def i import_vpcs_ok [OF assms(2)] pa emit_def)
  with r show ?thesis
    by (intro exI [of _ res] exI [of _ ?pre] exI [of _ post]) simp
qed

lemma path_join_inject: "path_join a b = path_join a c \<longleftrightarrow> b = c"
  by (simp add: path_join_def)

lemma path_join_modules:
  "path_join (path_join base ''Child_Module'') f \<noteq> path_join (path_join base ''Parent_Module'') g"
  by (simp add: path_join_def)

lemma create_or_update_tfvars_result:
  "\<exists>w content. create_or_update_tfvars ev child_module details region s =
       s\<lparr>files := (files s)(path_join child_module ''terraform.tfvars'' \<mapsto> content),
         trace := trace s @ w @ [WriteFile (path_join child_module ''terraform.tfvars'') content]\<rparr> \<and>
     run_cmds w = [] \<and> writes w = []"
proof -
  let ?p = "path_join child_module ''terraform.tfvars''"
  obtain st s1 where r: "read_existing_tfvars ev ?p s = (st, s1)"
    by (cases "read_existing_tfvars ev ?p s")
  then have "s1 = s \<or> (\<exists>e. s1 = s\<lparr>trace := trace s @ [PrintWarning e]\<rparr>)"
    by (auto simp: read_existing_tfvars_def emit_def split: option.splits sum.splits)
  then obtain w where w: "s1 = s\<lparr>trace := trace s @ w\<rparr>" "run_cmds w = []" "writes w = []"
  proof
    assume "s1 = s"
    then have "s1 = s\<lparr>trace := trace s @ []\<rparr>" by simp
    then show ?thesis using that [of "[]"] by simp
  next
    assume "\<exists>e. s1 = s\<lparr>trace := trace s @ [PrintWarning e]\<rparr>"
    then obtain e where "s1 = s\<lparr>trace := trace s @ [PrintWarning e]\<rparr>" ..
    then show ?thesis using that [of "[PrintWarning e]"] by simp
  qed
  obtain c i where u: "update_configs details st = (c, i)"
    by (cases "update_configs details st")
  have "create_or_update_tfvars ev child_module details region s =
       s\<lparr>files := (files s)(?p \<mapsto> tfvars_content c i region),
         trace := trace s @ w @ [WriteFile ?p (tfvars_content c i region)]\<rparr>"
    by (simp add: create_or_update_tfvars_def Let_def r u w(1) write_file_def)
  with w(2,3) show ?thesis by blast
qed

lemma scaffold_result:
  "create_terraform_files parent_module child_module s =
     s\<lparr>files := (files s)
          (path_join parent_module ''main.tf'' \<mapsto> parent_main_tf,
           path_join parent_module ''variables.tf'' \<mapsto> parent_variables_tf,
           path_join child_module ''main.tf'' \<mapsto> child_main_tf,
           path_join child_module ''variables.tf'' \<mapsto> child_variables_tf,
           path_join child_module ''backend.tf'' \<mapsto> backend_tf),
       trace := trace s @
          [WriteFile (path_join parent_module ''main.tf'') parent_main_tf,
           WriteFile (path_join parent_module ''variables.tf'') parent_variables_tf,
           WriteFile (path_join child_module ''main.tf'') child_main_tf,
           WriteFile (path_join child_module ''variables.tf'') child_variables_tf,
           WriteFile (path_join child_module ''backend.tf'') backend_tf]\<rparr>"
  by (simp add: create_terraform_files_def write_file_def)

text \<open>
  C2. When discovery succeeds, the initialisation succeeds and every import call returns
  (with any return code), the run performs one import per id in the order of the ids,
  then the plan, then (when the plan succeeds) the apply; the exit code is 0 when plan and
  apply succeed and 1 otherwise, whatever the imports returned; and what the loop prints
  for an id is in the output: for a return code other than zero, the captured output and
  the captured error of that import.
\<close>

theorem import_failure_does_not_abort:
  assumes "fst (fetch_vpc_details ev vpc_ids region []) = Inr details"
    and "succeeds ev [''terraform'', ''init'']"
    and "\<forall>vpc_id\<in>set vpc_ids. \<exists>result. subprocess_run ev (import_cmd vpc_id) = Inr result"
  shows "fst (main_with ev base_path region vpc_ids s) =
           (if succeeds ev [''terraform'', ''plan''] \<and>
               succeeds ev [''terraform'', ''apply'', ''-auto-approve''] then 0 else 1) \<and>
         run_cmds (trace (snd (main_with ev base_path region vpc_ids s))) =
           run_cmds (trace s) @ [[''terraform'', ''init'']] @ map import_cmd vpc_ids @
           [[''terraform'', ''plan'']] @
           (if succeeds ev [''terraform'', ''plan'']
            then [[''terraform'', ''apply'', ''-auto-approve'']] else []) \<and>
         (\<forall>vpc_id\<in>set vpc_ids. \<forall>result.
            subprocess_run ev (import_cmd vpc_id) = Inr result \<longrightarrow>
            set (import_events vpc_id result)
              \<subseteq> set (trace (snd (main_with ev base_path region vpc_ids s))))"
proof -
  let ?parent = "path_join base_path ''Parent_Module''"
  let ?child = "path_join base_path ''Child_Module''"
  let ?p = "path_join ?child ''terraform.tfvars''"
  let ?plan_ok = "succeeds ev [''terraform'', ''plan'']"
  let ?apply_ok = "succeeds ev [''terraform'', ''apply'', ''-auto-approve'']"
  define s2 where "s2 = create_terraform_files ?parent ?child
                          (emit (MakeDirs ?child) (emit (MakeDirs ?parent) s))"
  define s3 where "s3 = emit (Print (''Fetching details for VPCs: '' @ join '', '' vpc_ids @ ''...'')) s2"
  define ft where "ft = snd (fetch_vpc_details ev vpc_ids region [])"
  define s4 where "s4 = s3\<lparr>trace := trace s3 @ ft\<rparr>"
  have t2: "run_cmds (trace s2) = run_cmds (trace s)"
    by (simp add: s2_def scaffold_result emit_def run_cmds_append)
  have f: "fetch_vpc_details ev vpc_ids region (trace s3) = (Inr details, trace s3 @ ft)"
    using fetch_vpc_details_trace [of ev vpc_ids region "trace s3"] assms(1)
    by (simp add: ft_def)
  have ftq: "run_cmds ft = []"
    using fetch_vpc_details_quiet [of ev vpc_ids region "[]"] by (simp add: ft_def)
  from create_or_update_tfvars_result [of ev ?child details region s4]
  obtain w content where c: "create_or_update_tfvars ev ?child details region s4 =
       s4\<lparr>files := (files s4)(?p \<mapsto> content), trace := trace s4 @ w @ [WriteFile ?p content]\<rparr>"
    "run_cmds w = []" by blast
  define s5 where "s5 = create_or_update_tfvars ev ?child details region s4"
  define s6 where "s6 = emit (Print (''terraform.tfvars content:\<newline>'' @ content)) s5"
  have t3: "run_cmds (trace s3) = run_cmds (trace s)"
    by (simp add: s3_def emit_def run_cmds_append t2)
  have t4: "run_cmds (trace s4) = run_cmds (trace s)"
    by (simp add: s4_def run_cmds_append ftq t3)
  have "trace s5 = trace s4 @ w @ [WriteFile ?p content]"
    unfolding s5_def c(1) by simp
  then have t5: "run_cmds (trace s5) = run_cmds (trace s)"
    by (simp add: run_cmds_append c(2) t4)
  have t6: "run_cmds (trace s6) = run_cmds (trace s)"
    by (simp add: s6_def emit_def run_cmds_append t5)
  from provision_result [OF assms(2,3), of ?child]
  obtain res pre post where
    pr: "\<forall>s. provision ev ?child vpc_ids s =
             (res, s\<lparr>trace := trace s @ pre @ imports_trace ev vpc_ids @ post\<rparr>)"
    and r: "isl res = (\<not> (?plan_ok \<and> ?apply_ok))"
      "run_cmds pre = [[''terraform'', ''init'']]"
      "run_cmds post = [''terraform'', ''plan''] #
        (if ?plan_ok then [[''terraform'', ''apply'', ''-auto-approve'']] else [])"
    by blast
  define s7 where "s7 = s6\<lparr>trace := trace s6 @ pre @ imports_trace ev vpc_ids @ post\<rparr>"
  have fs5: "files s5 ?p = Some content"
    unfolding s5_def c(1) by simp
  have p6: "provision ev ?child vpc_ids s6 = (res, s7)"
    unfolding s7_def using pr by blast
  have mt: "main_try ev ?child region vpc_ids s2 = (res, s7)"
    unfolding main_try_def Let_def s3_def [symmetric] f
    by (simp only: prod.case sum.case s4_def [symmetric] s5_def [symmetric] fs5 option.case
        s6_def [symmetric] p6)
  have mw: "main_with ev base_path region vpc_ids s =
          (case res of Inl e \<Rightarrow> (1, emit (PrintError e) s7) | Inr u \<Rightarrow> (0, s7))"
    by (simp add: main_with_def create_directory_structure_def Let_def s2_def [symmetric] mt
        split: sum.splits)
  have t7: "run_cmds (trace s7) = run_cmds (trace s) @ [[''terraform'', ''init'']] @
           map import_cmd vpc_ids @ [[''terraform'', ''plan'']] @
           (if ?plan_ok then [[''terraform'', ''apply'', ''-auto-approve'']] else [])"
    by (simp add: s7_def run_cmds_append t6 r run_cmds_imports_trace [OF assms(3)])
  have sub: "set (imports_trace ev vpc_ids) \<subseteq> set (trace s7)"
    by (auto simp: s7_def)
  have ev_in: "set (import_events vpc_id result) \<subseteq> set (imports_trace ev vpc_ids)"
    if "vpc_id \<in> set vpc_ids" "subprocess_run ev (import_cmd vpc_id) = Inr result"
    for vpc_id result
    using that unfolding imports_trace_def by (force simp del: set_concat simp add: set_concat)
  show ?thesis
  proof (cases res)
    case (Inl e)
    with r(1) have "\<not> (?plan_ok \<and> ?apply_ok)" by simp
    moreover have "main_with ev base_path region vpc_ids s = (1, emit (PrintError e) s7)"
      using mw Inl by simp
    moreover have "set (trace s7) \<subseteq> set (trace (emit (PrintError e) s7))"
      by (auto simp: emit_def)
    ultimately show ?thesis
      using t7 sub ev_in by (simp add: emit_def run_cmds_append) blast
  next
    case (Inr u)
    with r(1) have "?plan_ok \<and> ?apply_ok" by simp
    moreover have "main_with ev base_path region vpc_ids s = (0, s7)"
      using mw Inr by simp
    ultimately show ?thesis
      using t7 sub ev_in by simp blast
  qed
qed

theorem import_failure_does_not_abort_witness:
  "fst (fetch_vpc_details env_full [''vpc-x'', ''vpc-y''] ''us-east-1'' []) =
     Inr [(''vpc-x'', (''10.0.0.0/16'', [], True, True)),
          (''vpc-y'', (''10.1.0.0/16'', [(''Name'', ''y'')], True, True))] \<and>
   succeeds env_full [''terraform'', ''init''] \<and>
   subprocess_run env_full (import_cmd ''vpc-x'') =
     Inr \<lparr>returncode = 1, stdout = ''out'', stderr = ''err''\<rparr> \<and>
   subprocess_run env_full (import_cmd ''vpc-y'') =
     Inr \<lparr>returncode = 0, stdout = [], stderr = []\<rparr> \<and>
   fst (main_with env_full ''/work'' ''us-east-1'' [''vpc-x'', ''vpc-y''] fresh) = 0 \<and>
   run_cmds (trace (snd (main_with env_full ''/work'' ''us-east-1'' [''vpc-x'', ''vpc-y''] fresh))) =
     [[''terraform'', ''init''], import_cmd ''vpc-x'', import_cmd ''vpc-y'',
      [''terraform'', ''plan''], [''terraform'', ''apply'', ''-auto-approve'']] \<and>
   Print ''Import Output for vpc-x: out''
     \<in> set (trace (snd (main_with env_full ''/work'' ''us-east-1'' [''vpc-x'', ''vpc-y''] fresh))) \<and>
   Print ''Import Error for vpc-x: err''
     \<in> set (trace (snd (main_with env_full ''/work'' ''us-east-1'' [''vpc-x'', ''vpc-y''] fresh)))"
proof -
  let ?details = "[(''vpc-x'', (''10.0.0.0/16'', [], True, True)),
          (''vpc-y'', (''10.1.0.0/16'', [(''Name'', ''y'')], True, True))]"
  let ?m = "main_with env_full ''/work'' ''us-east-1'' [''vpc-x'', ''vpc-y''] fresh"
  have 1: "fst (fetch_vpc_details env_full [''vpc-x'', ''vpc-y''] ''us-east-1'' []) = Inr ?details"
    by (simp add: fetch_vpc_details_def env_full_def env_partial_def Let_def)
  have ne: "[''terraform'', ''init''] \<noteq> import_cmd ''vpc-x''"
    "[''terraform'', ''plan''] \<noteq> import_cmd ''vpc-x''"
    "[''terraform'', ''apply'', ''-auto-approve''] \<noteq> import_cmd ''vpc-x''"
    "import_cmd ''vpc-y'' \<noteq> import_cmd ''vpc-x''"
    by (simp_all add: import_cmd_def)
  have 2: "succeeds env_full [''terraform'', ''init'']"
    "succeeds env_full [''terraform'', ''plan'']"
    "succeeds env_full [''terraform'', ''apply'', ''-auto-approve'']"
    by (simp_all add: succeeds_def env_full_def env_partial_def ne)
  have x: "subprocess_run env_full (import_cmd ''vpc-x'') =
     Inr \<lparr>returncode = 1, stdout = ''out'', stderr = ''err''\<rparr>"
    by (simp add: env_full_def env_partial_def)
  have y: "subprocess_run env_full (import_cmd ''vpc-y'') =
     Inr \<lparr>returncode = 0, stdout = [], stderr = []\<rparr>"
    by (simp add: env_full_def env_partial_def ne)
  have 3: "\<forall>vpc_id\<in>set [''vpc-x'', ''vpc-y''].
             \<exists>result. subprocess_run env_full (import_cmd vpc_id) = Inr result"
    using x y by simp
  note t = import_failure_does_not_abort [OF 1 2(1) 3, of "''/work''" fresh]
  from t have a: "fst ?m = 0" using 2 by simp
  from t have b: "run_cmds (trace (snd ?m)) =
     [[''terraform'', ''init''], import_cmd ''vpc-x'', import_cmd ''vpc-y'',
      [''terraform'', ''plan''], [''terraform'', ''apply'', ''-auto-approve'']]"
    using 2 by (simp add: fresh_def)
  from t x have "set (import_events ''vpc-x'' \<lparr>returncode = 1, stdout = ''out'', stderr = ''err''\<rparr>)
                   \<subseteq> set (trace (snd ?m))"
    by simp
  then have c: "Print ''Import Output for vpc-x: out'' \<in> set (trace (snd ?m))"
    "Print ''Import Error for vpc-x: err'' \<in> set (trace (snd ?m))"
    by (simp_all add: import_events_def)
  from 1 2(1) x y a b c show ?thesis by blast
qed

text \<open>
  C7, as the code has it. When discovery fails, the run exits with 1 after printing the
  error; it has run no subprocess and has not touched the variable file; the only files
  written are the five scaffold files, which lines 187 and 190 write before discovery
  starts.
\<close>

theorem discovery_failure_keeps_variable_file:
  assumes "fst (fetch_vpc_details ev vpc_ids region []) = Inl e"
  shows "fst (main_with ev base_path region vpc_ids s) = 1 \<and>
         writes (trace (snd (main_with ev base_path region vpc_ids s))) =
           writes (trace s) @
           [(path_join (path_join base_path ''Parent_Module'') ''main.tf'', parent_main_tf),
            (path_join (path_join base_path ''Parent_Module'') ''variables.tf'', parent_variables_tf),
            (path_join (path_join base_path ''Child_Module'') ''main.tf'', child_main_tf),
            (path_join (path_join base_path ''Child_Module'') ''variables.tf'', child_variables_tf),
            (path_join (path_join base_path ''Child_Module'') ''backend.tf'', backend_tf)] \<and>
         files (snd (main_with ev base_path region vpc_ids s))
             (path_join (path_join base_path ''Child_Module'') ''terraform.tfvars'') =
           files s (path_join (path_join base_path ''Child_Module'') ''terraform.tfvars'') \<and>
         run_cmds (trace (snd (main_with ev base_path region vpc_ids s))) = run_cmds (trace s) \<and>
         last (trace (snd (main_with ev base_path region vpc_ids s))) = PrintError e"
proof -
  let ?parent = "path_join base_path ''Parent_Module''"
  let ?child = "path_join base_path ''Child_Module''"
  let ?p = "path_join ?child ''terraform.tfvars''"
  define s2 where "s2 = create_terraform_files ?parent ?child
                          (emit (MakeDirs ?child) (emit (MakeDirs ?parent) s))"
  define s3 where "s3 = emit (Print (''Fetching details for VPCs: '' @ join '', '' vpc_ids @ ''...'')) s2"
  define ft where "ft = snd (fetch_vpc_details ev vpc_ids region [])"
  define s4 where "s4 = s3\<lparr>trace := trace s3 @ ft\<rparr>"
  have f: "fetch_vpc_details ev vpc_ids region (trace s3) = (Inl e, trace s3 @ ft)"
    using fetch_vpc_details_trace [of ev vpc_ids region "trace s3"] assms
    by (simp add: ft_def)
  have ftq: "run_cmds ft = []" "writes ft = []"
    using fetch_vpc_details_quiet [of ev vpc_ids region "[]"] by (simp_all add: ft_def)
  have mt: "main_try ev ?child region vpc_ids s2 = (Inl e, s4)"
    unfolding main_try_def Let_def s3_def [symmetric] f
    by (simp only: prod.case sum.case s4_def [symmetric])
  have mw: "main_with ev base_path region vpc_ids s = (1, emit (PrintError e) s4)"
    by (simp add: main_with_def create_directory_structure_def Let_def s2_def [symmetric] mt)
  have w2: "writes (trace s2) = writes (trace s) @
           [(path_join ?parent ''main.tf'', parent_main_tf),
            (path_join ?parent ''variables.tf'', parent_variables_tf),
            (path_join ?child ''main.tf'', child_main_tf),
            (path_join ?child ''variables.tf'', child_variables_tf),
            (path_join ?child ''backend.tf'', backend_tf)]"
    by (simp add: s2_def scaffold_result emit_def writes_append)
  have r2: "run_cmds (trace s2) = run_cmds (trace s)"
    by (simp add: s2_def scaffold_result emit_def run_cmds_append)
  have f2: "files s2 ?p = files s ?p"
    by (simp add: s2_def scaffold_result emit_def path_join_inject path_join_modules)
  have t4: "trace s4 = (trace s2 @ [Print (''Fetching details for VPCs: '' @ join '', '' vpc_ids @ ''...'')]) @ ft"
    by (simp add: s4_def s3_def emit_def)
  have w4: "writes (trace (emit (PrintError e) s4)) = writes (trace s2)"
    by (simp add: emit_def t4 writes_append ftq)
  have r4: "run_cmds (trace (emit (PrintError e) s4)) = run_cmds (trace s2)"
    by (simp add: emit_def t4 run_cmds_append ftq)
  have f4: "files (emit (PrintError e) s4) = files s2"
    by (simp add: s4_def s3_def emit_def)
  have l4: "last (trace (emit (PrintError e) s4)) = PrintError e"
    by (simp add: emit_def)
  show ?thesis
    unfolding mw fst_conv snd_conv w4 r4 f4 l4 w2 r2 f2 by simp
qed

theorem discovery_failure_keeps_variable_file_witness:
  "fst (fetch_vpc_details env_partial [''vpc-x'', ''vpc-y''] ''us-east-1'' []) =
     Inl (Exception ''VPCs not found: vpc-y'') \<and>
   fst (main_with env_partial ''/work'' ''us-east-1'' [''vpc-x'', ''vpc-y''] corrupted) = 1 \<and>
   writes (trace (snd (main_with env_partial ''/work'' ''us-east-1'' [''vpc-x'', ''vpc-y''] corrupted))) =
     [(''/work/Parent_Module/main.tf'', parent_main_tf),
      (''/work/Parent_Module/variables.tf'', parent_variables_tf),
      (''/work/Child_Module/main.tf'', child_main_tf),
      (''/work/Child_Module/variables.tf'', child_variables_tf),
      (''/work/Child_Module/backend.tf'', backend_tf)] \<and>
   files (snd (main_with env_partial ''/work'' ''us-east-1'' [''vpc-x'', ''vpc-y''] corrupted))
     ''/work/Child_Module/terraform.tfvars'' = Some ''garbage'' \<and>
   run_cmds (trace (snd (main_with env_partial ''/work'' ''us-east-1'' [''vpc-x'', ''vpc-y''] corrupted))) = [] \<and>
   last (trace (snd (main_with env_partial ''/work'' ''us-east-1'' [''vpc-x'', ''vpc-y''] corrupted))) =
     PrintError (Exception ''VPCs not found: vpc-y'')"
proof -
  have 1: "fst (fetch_vpc_details env_partial [''vpc-x'', ''vpc-y''] ''us-east-1'' []) =
     Inl (Exception ''VPCs not found: vpc-y'')"
    by (simp add: fetch_vpc_details_def env_partial_def Let_def)
  from discovery_failure_keeps_variable_file [OF 1, of "''/work''" corrupted] 1
  show ?thesis
    by (simp add: path_join_def corrupted_def tfvars_path0_def)
qed

text \<open>
  A run from a machine with no file, in which the provider resolves \<open>vpc-x\<close> but not
  \<open>vpc-y\<close>: the scaffold files exist when the run exits with 1, and their writes come
  before the query in the trace.
\<close>

theorem discovery_failure_counterexample:
  "fst (main_with env_partial ''/work'' ''us-east-1'' [''vpc-x'', ''vpc-y''] fresh) = 1 \<and>
   files fresh ''/work/Parent_Module/main.tf'' = None \<and>
   files (snd (main_with env_partial ''/work'' ''us-east-1'' [''vpc-x'', ''vpc-y''] fresh))
     ''/work/Parent_Module/main.tf'' = Some parent_main_tf \<and>
   trace (snd (main_with env_partial ''/work'' ''us-east-1'' [''vpc-x'', ''vpc-y''] fresh)) =
     [MakeDirs ''/work/Parent_Module'',
      MakeDirs ''/work/Child_Module'',
      WriteFile ''/work/Parent_Module/main.tf'' parent_main_tf,
      WriteFile ''/work/Parent_Module/variables.tf'' parent_variables_tf,
      WriteFile ''/work/Child_Module/main.tf'' child_main_tf,
      WriteFile ''/work/Child_Module/variables.tf'' child_variables_tf,
      WriteFile ''/work/Child_Module/backend.tf'' backend_tf,
      Print ''Fetching details for VPCs: vpc-x, vpc-y...'',
      DescribeVpcs [''vpc-x'', ''vpc-y''] ''us-east-1'',
      DescribeVpcAttribute ''vpc-x'' ''enableDnsSupport'',
      DescribeVpcAttribute ''vpc-x'' ''enableDnsHostnames'',
      PrintError (Exception ''VPCs not found: vpc-y'')]"
proof -
  have f: "fetch_vpc_details env_partial [''vpc-x'', ''vpc-y''] ''us-east-1'' tr =
     (Inl (Exception ''VPCs not found: vpc-y''),
      tr @ [DescribeVpcs [''vpc-x'', ''vpc-y''] ''us-east-1'',
            DescribeVpcAttribute ''vpc-x'' ''enableDnsSupport'',
            DescribeVpcAttribute ''vpc-x'' ''enableDnsHostnames''])" for tr
    by (simp add: fetch_vpc_details_def env_partial_def Let_def)
  show ?thesis
    by (simp add: main_with_def create_directory_structure_def create_terraform_files_def
        main_try_def f Let_def emit_def write_file_def path_join_def fresh_def)
qed

end
